theory Spec2Isabelle
  imports Main
begin

section \<open>The browser environment used by main.js\<close>

text \<open>
  The script \<^verbatim>\<open>themes/coffeepsite/assets/js/main.js\<close> is one \<^verbatim>\<open>DOMContentLoaded\<close>
  listener that looks up elements by class selector, attaches click and resize listeners,
  and mutates attributes, class lists, the inline overflow style of the body and the
  \<^verbatim>\<open>theme\<close> key of \<^verbatim>\<open>localStorage\<close>.

  Elements are identified by a number and live in a store, so that two selectors may pick
  the same element. Of an element only what the script reads or writes is kept: its
  attributes, its class list and its inline \<^verbatim>\<open>style.overflow\<close>.
\<close>

type_synonym elem = nat

record element =
  attributes :: "string \<rightharpoonup> string"
  classList :: "string set"
  style_overflow :: string

text \<open>
  \<^verbatim>\<open>localStorage\<close>: its items, and whether reading or writing throws (storage disabled by
  browser policy, quota exceeded).
\<close>

datatype js_error = StorageError

record storage =
  items :: "string \<rightharpoonup> string"
  getItem_throws :: bool
  setItem_throws :: bool

text \<open>
  The closures the script passes to \<^verbatim>\<open>addEventListener\<close>, with the constants each one
  captures: \<^verbatim>\<open>menuToggle\<close> and \<^verbatim>\<open>headerMenu\<close>, \<^verbatim>\<open>langDropdown\<close>, \<^verbatim>\<open>htmlElement\<close>.
  In the trigger's click listener \<^verbatim>\<open>this\<close> is the element the listener is attached to,
  which is \<^verbatim>\<open>menuToggle\<close>.
\<close>

datatype handler =
    MenuToggleClick elem elem
  | DocumentClick elem elem
  | WindowResize elem elem
  | LangToggleClick elem
  | ThemeToggleClick elem

datatype event_target = OnElement elem | OnDocument | OnWindow

datatype event_type = ClickEv | ResizeEv

type_synonym listener = "event_target \<times> event_type \<times> handler"

record page =
  elements :: "elem list"
  node :: "elem \<Rightarrow> element"
  documentElement :: elem
  body :: elem
  innerWidth :: int
  localStorage :: storage
  listeners :: "listener list"

text \<open>
  \<open>elements\<close> lists the elements in document order. A handler either runs to its end or
  throws; the page it leaves behind is kept in both cases, since the writes made before
  the throw stay.
\<close>

datatype outcome = Completed page | Threw js_error page

fun page_of :: "outcome \<Rightarrow> page" where
  "page_of (Completed p) = p"
| "page_of (Threw e p) = p"

subsection \<open>DOM and storage primitives\<close>

text \<open>Only class selectors (\<^verbatim>\<open>.name\<close>) occur in the script.\<close>

definition matches :: "element \<Rightarrow> string \<Rightarrow> bool" where
  "matches el sel = (case sel of [] \<Rightarrow> False | c # cls \<Rightarrow> c = CHR ''.'' \<and> cls \<in> classList el)"

definition querySelector :: "page \<Rightarrow> string \<Rightarrow> elem option" where
  "querySelector p sel = find (\<lambda>e. matches (node p e) sel) (elements p)"

text \<open>
  \<^verbatim>\<open>target.closest(sel)\<close> walks the inclusive ancestors of the target, which are given
  as the list \<open>path\<close>, the target first.
\<close>

definition closest :: "page \<Rightarrow> elem list \<Rightarrow> string \<Rightarrow> elem option" where
  "closest p path sel = find (\<lambda>e. matches (node p e) sel) path"

definition getAttribute :: "page \<Rightarrow> elem \<Rightarrow> string \<Rightarrow> string option" where
  "getAttribute p e a = attributes (node p e) a"

definition setAttribute :: "page \<Rightarrow> elem \<Rightarrow> string \<Rightarrow> string \<Rightarrow> page" where
  "setAttribute p e a v =
     p\<lparr>node := (node p)(e := (node p e)\<lparr>attributes := (attributes (node p e))(a \<mapsto> v)\<rparr>)\<rparr>"

definition classList_toggle :: "page \<Rightarrow> elem \<Rightarrow> string \<Rightarrow> page" where
  "classList_toggle p e c =
     p\<lparr>node := (node p)(e := (node p e)\<lparr>classList :=
        (if c \<in> classList (node p e) then classList (node p e) - {c}
         else insert c (classList (node p e)))\<rparr>)\<rparr>"

definition classList_remove :: "page \<Rightarrow> elem \<Rightarrow> string \<Rightarrow> page" where
  "classList_remove p e c =
     p\<lparr>node := (node p)(e := (node p e)\<lparr>classList := classList (node p e) - {c}\<rparr>)\<rparr>"

definition set_style_overflow :: "page \<Rightarrow> elem \<Rightarrow> string \<Rightarrow> page" where
  "set_style_overflow p e v = p\<lparr>node := (node p)(e := (node p e)\<lparr>style_overflow := v\<rparr>)\<rparr>"

definition addEventListener :: "page \<Rightarrow> event_target \<Rightarrow> event_type \<Rightarrow> handler \<Rightarrow> page" where
  "addEventListener p tg ty h = p\<lparr>listeners := listeners p @ [(tg, ty, h)]\<rparr>"

definition localStorage_getItem :: "page \<Rightarrow> string \<Rightarrow> js_error + string option" where
  "localStorage_getItem p k =
     (if getItem_throws (localStorage p) then Inl StorageError
      else Inr (items (localStorage p) k))"

definition localStorage_setItem :: "page \<Rightarrow> string \<Rightarrow> string \<Rightarrow> outcome" where
  "localStorage_setItem p k v =
     (if setItem_throws (localStorage p) then Threw StorageError p
      else Completed (p\<lparr>localStorage :=
             (localStorage p)\<lparr>items := (items (localStorage p))(k \<mapsto> v)\<rparr>\<rparr>))"

text \<open>\<^verbatim>\<open>setAttribute(name, b)\<close> with a boolean \<open>b\<close> stores its string form.\<close>

definition js_string_of_bool :: "bool \<Rightarrow> string" where
  "js_string_of_bool b = (if b then ''true'' else ''false'')"

text \<open>\<^verbatim>\<open>v || 'light'\<close>: \<^verbatim>\<open>null\<close> and the empty string are falsy.\<close>

definition or_default :: "string option \<Rightarrow> string \<Rightarrow> string" where
  "or_default v d = (case v of None \<Rightarrow> d | Some s \<Rightarrow> if s = [] then d else s)"

section \<open>The listeners of main.js\<close>

text \<open>Lines 6-11: the click listener of the menu trigger.\<close>

definition menuToggle_click :: "elem \<Rightarrow> elem \<Rightarrow> page \<Rightarrow> page" where
  "menuToggle_click this headerMenu p =
     (let isExpanded = (getAttribute p this ''aria-expanded'' = Some ''true'');
          p1 = setAttribute p this ''aria-expanded'' (js_string_of_bool (\<not> isExpanded));
          p2 = classList_toggle p1 headerMenu ''is-open''
      in set_style_overflow p2 (body p2) (if \<not> isExpanded then ''hidden'' else ''''))"

text \<open>Lines 13-19: the click listener of the document; \<open>path\<close> starts at \<^verbatim>\<open>e.target\<close>.\<close>

definition document_click :: "elem \<Rightarrow> elem \<Rightarrow> elem list \<Rightarrow> page \<Rightarrow> page" where
  "document_click menuToggle headerMenu path p =
     (if closest p path ''.header-wrapper'' = None then
        (let p1 = setAttribute p menuToggle ''aria-expanded'' ''false'';
             p2 = classList_remove p1 headerMenu ''is-open''
         in set_style_overflow p2 (body p2) '''')
      else p)"

text \<open>Lines 21-27: the resize listener of the window.\<close>

definition window_resize :: "elem \<Rightarrow> elem \<Rightarrow> page \<Rightarrow> page" where
  "window_resize menuToggle headerMenu p =
     (if innerWidth p > 768 then
        (let p1 = setAttribute p menuToggle ''aria-expanded'' ''false'';
             p2 = classList_remove p1 headerMenu ''is-open''
         in set_style_overflow p2 (body p2) '''')
      else p)"

text \<open>
  Lines 34-37: the click listener of the language toggle. Its call of
  \<^verbatim>\<open>e.stopPropagation()\<close> is the flag returned by \<open>run_handler\<close> below.
\<close>

definition langToggle_click :: "elem \<Rightarrow> page \<Rightarrow> page" where
  "langToggle_click langDropdown p = classList_toggle p langDropdown ''is-open''"

text \<open>
  Lines 47-52: the click listener of the theme toggle. The attribute is written before
  the storage, so a throwing \<^verbatim>\<open>setItem\<close> leaves the attribute flipped.
\<close>

definition themeToggle_click :: "elem \<Rightarrow> page \<Rightarrow> outcome" where
  "themeToggle_click htmlElement p =
     (let theme = getAttribute p htmlElement ''data-theme'';
          newTheme = (if theme = Some ''dark'' then ''light'' else ''dark'');
          p1 = setAttribute p htmlElement ''data-theme'' newTheme
      in localStorage_setItem p1 ''theme'' newTheme)"

section \<open>Initialization\<close>

text \<open>Lines 2-28.\<close>

definition menu_controller :: "page \<Rightarrow> page" where
  "menu_controller p =
     (case (querySelector p ''.menu-toggle'', querySelector p ''.header-menu'') of
        (Some menuToggle, Some headerMenu) \<Rightarrow>
          (let p1 = addEventListener p (OnElement menuToggle) ClickEv
                      (MenuToggleClick menuToggle headerMenu);
               p2 = addEventListener p1 OnDocument ClickEv (DocumentClick menuToggle headerMenu)
           in addEventListener p2 OnWindow ResizeEv (WindowResize menuToggle headerMenu))
      | _ \<Rightarrow> p)"

text \<open>Lines 30-38.\<close>

definition dropdown_controller :: "page \<Rightarrow> page" where
  "dropdown_controller p =
     (case (querySelector p ''.lang-toggle'', querySelector p ''.lang-dropdown'') of
        (Some langToggle, Some langDropdown) \<Rightarrow>
          (if innerWidth p \<le> 768
           then addEventListener p (OnElement langToggle) ClickEv (LangToggleClick langDropdown)
           else p)
      | _ \<Rightarrow> p)"

text \<open>Lines 40-53. Nothing catches a throwing \<^verbatim>\<open>getItem\<close>: the listener ends there.\<close>

definition theme_controller :: "page \<Rightarrow> outcome" where
  "theme_controller p =
     (let themeToggle = querySelector p ''.theme-toggle'';
          htmlElement = documentElement p
      in case localStorage_getItem p ''theme'' of
           Inl err \<Rightarrow> Threw err p
         | Inr stored \<Rightarrow>
             (let currentTheme = or_default stored ''light'';
                  p1 = setAttribute p htmlElement ''data-theme'' currentTheme
              in case themeToggle of
                   Some tt \<Rightarrow> Completed (addEventListener p1 (OnElement tt) ClickEv
                                           (ThemeToggleClick htmlElement))
                 | None \<Rightarrow> Completed p1))"

text \<open>Lines 1-54: the whole \<^verbatim>\<open>DOMContentLoaded\<close> listener.\<close>

definition DOMContentLoaded :: "page \<Rightarrow> outcome" where
  "DOMContentLoaded p = theme_controller (dropdown_controller (menu_controller p))"

section \<open>Event dispatch\<close>

text \<open>
  A click carries its target and the target's ancestors, innermost first; a resize
  carries the new width of the window.
\<close>

datatype event = Click elem "elem list" | Resize int

text \<open>
  Running one closure on an event. The second component tells whether the closure called
  \<^verbatim>\<open>stopPropagation\<close>.
\<close>

fun run_handler :: "handler \<Rightarrow> elem list \<Rightarrow> page \<Rightarrow> outcome \<times> bool" where
  "run_handler (MenuToggleClick mt hm) path p = (Completed (menuToggle_click mt hm p), False)"
| "run_handler (DocumentClick mt hm) path p = (Completed (document_click mt hm path p), False)"
| "run_handler (WindowResize mt hm) path p = (Completed (window_resize mt hm p), False)"
| "run_handler (LangToggleClick ld) path p = (Completed (langToggle_click ld p), True)"
| "run_handler (ThemeToggleClick html) path p = (themeToggle_click html p, False)"

text \<open>
  All listeners registered on one target for one event type run in registration order. An
  exception thrown by a listener is reported by the browser and does not stop the others.
\<close>

fun run_listeners ::
  "listener list \<Rightarrow> event_target \<Rightarrow> event_type \<Rightarrow> elem list \<Rightarrow> page \<Rightarrow> page \<times> bool" where
  "run_listeners [] tg ty path p = (p, False)"
| "run_listeners ((tg', ty', h) # ls) tg ty path p =
     (if tg' = tg \<and> ty' = ty then
        (case run_handler h path p of
           (r, stop) \<Rightarrow>
             (case run_listeners ls tg ty path (page_of r) of
                (p', stop') \<Rightarrow> (p', stop \<or> stop')))
      else run_listeners ls tg ty path p)"

text \<open>
  The bubbling phase: from the target up through its ancestors, then the document, then
  the window, unless a listener stopped the propagation.
\<close>

fun propagate :: "elem list \<Rightarrow> elem list \<Rightarrow> page \<Rightarrow> page" where
  "propagate [] path p =
     (case run_listeners (listeners p) OnDocument ClickEv path p of
        (p', stop) \<Rightarrow>
          if stop then p' else fst (run_listeners (listeners p') OnWindow ClickEv path p'))"
| "propagate (e # es) path p =
     (case run_listeners (listeners p) (OnElement e) ClickEv path p of
        (p', stop) \<Rightarrow> if stop then p' else propagate es path p')"

fun dispatch :: "page \<Rightarrow> event \<Rightarrow> page" where
  "dispatch p (Click t ancestors) = propagate (t # ancestors) (t # ancestors) p"
| "dispatch p (Resize w) =
     fst (run_listeners (listeners p) OnWindow ResizeEv [] (p\<lparr>innerWidth := w\<rparr>))"

definition run :: "page \<Rightarrow> event list \<Rightarrow> page" where
  "run p evs = foldl dispatch p evs"

section \<open>Sample pages\<close>

text \<open>
  A page with every element the script looks for: the root element 0, the body 1, the
  header region 2 (class \<^verbatim>\<open>header-wrapper\<close>)
  holding the menu trigger 3, the menu container 4, the language toggle 5, its dropdown 6
  and the theme toggle 7, and the main content 8 outside the header. The viewport is
  narrow, the menu is closed and nothing is stored.
\<close>

definition plain :: element where
  "plain = \<lparr>attributes = Map.empty, classList = {}, style_overflow = ''''\<rparr>"

definition sample_nodes :: "elem \<Rightarrow> element" where
  "sample_nodes =
     (\<lambda>e. plain)
       (2 := plain\<lparr>classList := {''header-wrapper''}\<rparr>,
        3 := plain\<lparr>attributes := [''aria-expanded'' \<mapsto> ''false''],
                    classList := {''menu-toggle''}\<rparr>,
        4 := plain\<lparr>classList := {''header-menu''}\<rparr>,
        5 := plain\<lparr>classList := {''lang-toggle''}\<rparr>,
        6 := plain\<lparr>classList := {''lang-dropdown''}\<rparr>,
        7 := plain\<lparr>classList := {''theme-toggle''}\<rparr>)"

definition empty_storage :: storage where
  "empty_storage = \<lparr>items = Map.empty, getItem_throws = False, setItem_throws = False\<rparr>"

definition sample_page :: page where
  "sample_page =
     \<lparr>elements = [0, 1, 2, 3, 4, 5, 6, 7, 8], node = sample_nodes, documentElement = 0,
      body = 1, innerWidth = 375, localStorage = empty_storage, listeners = []\<rparr>"

text \<open>Three clicks on the menu trigger of the sample page, whose ancestors are 2, 1 and 0.\<close>

definition trigger_clicks :: "event list" where
  "trigger_clicks = [Click 3 [2, 1, 0], Click 3 [2, 1, 0], Click 3 [2, 1, 0]]"

text \<open>The sample page loaded in a wide viewport.\<close>

definition wide_page :: page where
  "wide_page = sample_page\<lparr>innerWidth := 1024\<rparr>"

text \<open>The sample page without the menu trigger, and without the theme toggle.\<close>

definition no_trigger_page :: page where
  "no_trigger_page = sample_page\<lparr>node := sample_nodes(3 := plain)\<rparr>"

definition no_theme_toggle_page :: page where
  "no_theme_toggle_page = sample_page\<lparr>node := sample_nodes(7 := plain)\<rparr>"

text \<open>
  The sample page with storage disabled, with storage that can be read and not written,
  and with a stored dark theme.
\<close>

definition blocked_page :: page where
  "blocked_page = sample_page\<lparr>localStorage :=
     \<lparr>items = Map.empty, getItem_throws = True, setItem_throws = True\<rparr>\<rparr>"

definition readonly_page :: page where
  "readonly_page = sample_page\<lparr>localStorage :=
     \<lparr>items = Map.empty, getItem_throws = False, setItem_throws = True\<rparr>\<rparr>"

definition dark_page :: page where
  "dark_page = sample_page\<lparr>localStorage :=
     \<lparr>items = [''theme'' \<mapsto> ''dark''], getItem_throws = False, setItem_throws = False\<rparr>\<rparr>"

text \<open>The sample page without the theme toggle and with a stored dark theme.\<close>

definition dark_no_theme_toggle_page :: page where
  "dark_no_theme_toggle_page = dark_page\<lparr>node := sample_nodes(7 := plain)\<rparr>"

section \<open>Predicates used in the statements\<close>

text \<open>
  What every listener leaves as it is: the attached listeners, the elements of the
  document, its root and body, and whether storage throws.
\<close>

definition same_frame :: "page \<Rightarrow> page \<Rightarrow> bool" where
  "same_frame p q \<longleftrightarrow>
     listeners q = listeners p \<and> elements q = elements p \<and>
     documentElement q = documentElement p \<and> body q = body p \<and>
     getItem_throws (localStorage q) = getItem_throws (localStorage p) \<and>
     setItem_throws (localStorage q) = setItem_throws (localStorage p)"

text \<open>The two representations of the menu-open flag agree.\<close>

definition menu_agrees :: "elem \<Rightarrow> elem \<Rightarrow> page \<Rightarrow> bool" where
  "menu_agrees mt hm p \<longleftrightarrow>
     (getAttribute p mt ''aria-expanded'' = Some ''true'') = (''is-open'' \<in> classList (node p hm))"

text \<open>The inline overflow style of the body.\<close>

definition body_overflow :: "page \<Rightarrow> string" where
  "body_overflow p = style_overflow (node p (body p))"

definition overflow_matches :: "elem \<Rightarrow> page \<Rightarrow> bool" where
  "overflow_matches mt p \<longleftrightarrow>
     style_overflow (node p (body p)) =
       (if getAttribute p mt ''aria-expanded'' = Some ''true'' then ''hidden'' else '''')"

text \<open>
  Either the attribute of the trigger is still what it was in \<open>p\<close>, or the overflow
  style has been set to match it.
\<close>

definition overflow_tracks :: "elem \<Rightarrow> page \<Rightarrow> page \<Rightarrow> bool" where
  "overflow_tracks mt p q \<longleftrightarrow>
     getAttribute q mt ''aria-expanded'' = getAttribute p mt ''aria-expanded'' \<or>
     overflow_matches mt q"

text \<open>The closures of the menu controller.\<close>

fun is_menu_handler :: "handler \<Rightarrow> bool" where
  "is_menu_handler (MenuToggleClick mt hm) = True"
| "is_menu_handler (DocumentClick mt hm) = True"
| "is_menu_handler (WindowResize mt hm) = True"
| "is_menu_handler (LangToggleClick ld) = False"
| "is_menu_handler (ThemeToggleClick html) = False"

text \<open>The root attribute and the stored value are the same.\<close>

definition theme_synced :: "elem \<Rightarrow> page \<Rightarrow> bool" where
  "theme_synced html p \<longleftrightarrow>
     getAttribute p html ''data-theme'' = items (localStorage p) ''theme''"

section \<open>Basic facts about the primitives and the initialization\<close>

lemma matches_simps [simp]:
  "matches el (CHR ''.'' # cls) = (cls \<in> classList el)"
  by (simp add: matches_def)

lemma menu_controller_fields [simp]:
  "node (menu_controller p) = node p"
  "elements (menu_controller p) = elements p"
  "documentElement (menu_controller p) = documentElement p"
  "body (menu_controller p) = body p"
  "innerWidth (menu_controller p) = innerWidth p"
  "localStorage (menu_controller p) = localStorage p"
  by (simp_all add: menu_controller_def addEventListener_def split: option.splits)

lemma dropdown_controller_fields [simp]:
  "node (dropdown_controller p) = node p"
  "elements (dropdown_controller p) = elements p"
  "documentElement (dropdown_controller p) = documentElement p"
  "body (dropdown_controller p) = body p"
  "innerWidth (dropdown_controller p) = innerWidth p"
  "localStorage (dropdown_controller p) = localStorage p"
  by (simp_all add: dropdown_controller_def addEventListener_def split: option.splits)

lemma querySelector_controllers [simp]:
  "querySelector (menu_controller p) sel = querySelector p sel"
  "querySelector (dropdown_controller p) sel = querySelector p sel"
  by (simp_all add: querySelector_def)

lemma sample_selectors:
  "querySelector sample_page ''.menu-toggle'' = Some 3"
  "querySelector sample_page ''.header-menu'' = Some 4"
  "querySelector sample_page ''.lang-toggle'' = Some 5"
  "querySelector sample_page ''.lang-dropdown'' = Some 6"
  "querySelector sample_page ''.theme-toggle'' = Some 7"
  by (simp_all add: querySelector_def sample_page_def sample_nodes_def plain_def)

lemma menu_controller_listeners:
  "listeners (menu_controller p) = listeners p @
     (case (querySelector p ''.menu-toggle'', querySelector p ''.header-menu'') of
        (Some mt, Some hm) \<Rightarrow>
          [(OnElement mt, ClickEv, MenuToggleClick mt hm),
           (OnDocument, ClickEv, DocumentClick mt hm),
           (OnWindow, ResizeEv, WindowResize mt hm)]
      | _ \<Rightarrow> [])"
  by (simp add: menu_controller_def addEventListener_def split: option.splits)

lemma dropdown_controller_listeners:
  "listeners (dropdown_controller p) = listeners p @
     (case (querySelector p ''.lang-toggle'', querySelector p ''.lang-dropdown'') of
        (Some lt, Some ld) \<Rightarrow>
          if innerWidth p \<le> 768 then [(OnElement lt, ClickEv, LangToggleClick ld)] else []
      | _ \<Rightarrow> [])"
  by (simp add: dropdown_controller_def addEventListener_def split: option.splits)

lemma theme_controller_throws:
  "getItem_throws (localStorage p) \<Longrightarrow> theme_controller p = Threw StorageError p"
  by (simp add: theme_controller_def localStorage_getItem_def)

lemma theme_controller_completes:
  "\<not> getItem_throws (localStorage p) \<Longrightarrow>
   theme_controller p =
     Completed ((setAttribute p (documentElement p) ''data-theme''
                   (or_default (items (localStorage p) ''theme'') ''light''))
                \<lparr>listeners := listeners p @
                   (case querySelector p ''.theme-toggle'' of
                      Some tt \<Rightarrow> [(OnElement tt, ClickEv, ThemeToggleClick (documentElement p))]
                    | None \<Rightarrow> [])\<rparr>)"
  by (simp add: theme_controller_def localStorage_getItem_def addEventListener_def
      setAttribute_def Let_def split: option.splits)

section \<open>What no listener changes\<close>

lemma primitive_fields [simp]:
  "listeners (setAttribute p e a v) = listeners p"
  "elements (setAttribute p e a v) = elements p"
  "documentElement (setAttribute p e a v) = documentElement p"
  "body (setAttribute p e a v) = body p"
  "innerWidth (setAttribute p e a v) = innerWidth p"
  "localStorage (setAttribute p e a v) = localStorage p"
  "listeners (classList_toggle p e c) = listeners p"
  "elements (classList_toggle p e c) = elements p"
  "documentElement (classList_toggle p e c) = documentElement p"
  "body (classList_toggle p e c) = body p"
  "innerWidth (classList_toggle p e c) = innerWidth p"
  "localStorage (classList_toggle p e c) = localStorage p"
  "listeners (classList_remove p e c) = listeners p"
  "elements (classList_remove p e c) = elements p"
  "documentElement (classList_remove p e c) = documentElement p"
  "body (classList_remove p e c) = body p"
  "innerWidth (classList_remove p e c) = innerWidth p"
  "localStorage (classList_remove p e c) = localStorage p"
  "listeners (set_style_overflow p e v) = listeners p"
  "elements (set_style_overflow p e v) = elements p"
  "documentElement (set_style_overflow p e v) = documentElement p"
  "body (set_style_overflow p e v) = body p"
  "innerWidth (set_style_overflow p e v) = innerWidth p"
  "localStorage (set_style_overflow p e v) = localStorage p"
  by (simp_all add: setAttribute_def classList_toggle_def classList_remove_def
      set_style_overflow_def)

lemma same_frame_refl [simp]: "same_frame p p"
  by (simp add: same_frame_def)

lemma same_frame_trans: "same_frame p q \<Longrightarrow> same_frame q r \<Longrightarrow> same_frame p r"
  by (simp add: same_frame_def)

lemma themeToggle_click_frame: "same_frame p (page_of (themeToggle_click html p))"
  by (simp add: same_frame_def themeToggle_click_def localStorage_setItem_def Let_def)

lemma run_handler_frame: "same_frame p (page_of (fst (run_handler h path p)))"
proof (cases h)
  case (ThemeToggleClick html)
  then show ?thesis by (simp add: themeToggle_click_frame)
qed (simp_all add: same_frame_def menuToggle_click_def document_click_def
      window_resize_def langToggle_click_def Let_def)

lemma run_listeners_frame: "same_frame p (fst (run_listeners ls tg ty path p))"
proof (induction ls arbitrary: p)
  case Nil
  show ?case by simp
next
  case (Cons l ls)
  obtain tg' ty' h where l: "l = (tg', ty', h)" by (cases l)
  show ?case
  proof (cases "tg' = tg \<and> ty' = ty")
    case True
    have "same_frame p (page_of (fst (run_handler h path p)))"
      by (rule run_handler_frame)
    moreover have "same_frame (page_of (fst (run_handler h path p)))
        (fst (run_listeners ls tg ty path (page_of (fst (run_handler h path p)))))"
      by (rule Cons.IH)
    ultimately have "same_frame p
        (fst (run_listeners ls tg ty path (page_of (fst (run_handler h path p)))))"
      by (rule same_frame_trans)
    then show ?thesis
      using True l by (simp add: split_beta)
  next
    case False
    then show ?thesis using l Cons.IH by auto
  qed
qed

lemma run_listeners_listeners [simp]:
  "listeners (fst (run_listeners ls tg ty path p)) = listeners p"
  using run_listeners_frame [of p ls tg ty path] by (simp add: same_frame_def)

lemma propagate_frame: "same_frame p (propagate es path p)"
proof (induction es arbitrary: p)
  case Nil
  have a: "same_frame p (fst (run_listeners (listeners p) OnDocument ClickEv path p))"
    by (rule run_listeners_frame)
  have b: "same_frame (fst (run_listeners (listeners p) OnDocument ClickEv path p))
     (fst (run_listeners (listeners p) OnWindow ClickEv path
        (fst (run_listeners (listeners p) OnDocument ClickEv path p))))"
    by (rule run_listeners_frame)
  show ?case using a same_frame_trans [OF a b]
    by (simp add: split_beta)
next
  case (Cons e es)
  have a: "same_frame p (fst (run_listeners (listeners p) (OnElement e) ClickEv path p))"
    by (rule run_listeners_frame)
  show ?case using a same_frame_trans [OF a Cons.IH]
    by (simp add: split_beta)
qed

lemma dispatch_frame: "same_frame p (dispatch p ev)"
proof (cases ev)
  case (Click t anc)
  then show ?thesis using propagate_frame [of p "t # anc" "t # anc"] by simp
next
  case (Resize w)
  have "same_frame (p\<lparr>innerWidth := w\<rparr>)
          (fst (run_listeners (listeners p) OnWindow ResizeEv [] (p\<lparr>innerWidth := w\<rparr>)))"
    by (rule run_listeners_frame)
  then show ?thesis using Resize by (simp add: same_frame_def)
qed

lemma run_frame: "same_frame p (run p evs)"
  unfolding run_def
proof (induction evs arbitrary: p)
  case Nil
  show ?case by simp
next
  case (Cons ev evs)
  show ?case using same_frame_trans [OF dispatch_frame Cons.IH] by simp
qed

lemma dispatch_listeners [simp]: "listeners (dispatch p ev) = listeners p"
  using dispatch_frame [of p ev] by (simp add: same_frame_def)

lemma run_listeners_field [simp]: "listeners (run p evs) = listeners p"
  using run_frame [of p evs] by (simp add: same_frame_def)

section \<open>Invariants of the dispatch\<close>

lemma run_listeners_preserves:
  assumes step: "\<And>h q. (tg, ty, h) \<in> set ls \<Longrightarrow> P q \<Longrightarrow> P (page_of (fst (run_handler h path q)))"
    and "P p"
  shows "P (fst (run_listeners ls tg ty path p))"
  using assms
proof (induction ls arbitrary: p)
  case Nil
  then show ?case by simp
next
  case (Cons l ls)
  obtain tg' ty' h where l: "l = (tg', ty', h)" by (cases l)
  show ?case
  proof (cases "tg' = tg \<and> ty' = ty")
    case True
    have hp: "P (page_of (fst (run_handler h path p)))"
      using Cons.prems True l by simp
    have "P (fst (run_listeners ls tg ty path (page_of (fst (run_handler h path p)))))"
      by (rule Cons.IH) (use Cons.prems(1) hp in simp_all)
    then show ?thesis using True l by (simp add: split_beta)
  next
    case False
    have "P (fst (run_listeners ls tg ty path p))"
      by (rule Cons.IH) (use Cons.prems in simp_all)
    then show ?thesis using False l by auto
  qed
qed

lemma propagate_preserves:
  assumes step: "\<And>tg h q. (tg, ClickEv, h) \<in> set (listeners p) \<Longrightarrow> P q \<Longrightarrow>
                   P (page_of (fst (run_handler h path q)))"
    and "P p"
  shows "P (propagate es path p)"
  using assms
proof (induction es arbitrary: p)
  case Nil
  let ?q = "fst (run_listeners (listeners p) OnDocument ClickEv path p)"
  have q: "P ?q"
    by (rule run_listeners_preserves) (use Nil in simp_all)
  have "P (fst (run_listeners (listeners p) OnWindow ClickEv path ?q))"
    by (rule run_listeners_preserves) (use Nil(1) q in simp_all)
  with q show ?case by (simp add: split_beta)
next
  case (Cons e es)
  let ?q = "fst (run_listeners (listeners p) (OnElement e) ClickEv path p)"
  have q: "P ?q"
    by (rule run_listeners_preserves) (use Cons.prems in simp_all)
  have "P (propagate es path ?q)"
    by (rule Cons.IH) (use Cons.prems(1) q in simp_all)
  with q show ?case by (simp add: split_beta)
qed

lemma dispatch_preserves:
  assumes step: "\<And>tg ty h path q. (tg, ty, h) \<in> set (listeners p) \<Longrightarrow> P q \<Longrightarrow>
                   P (page_of (fst (run_handler h path q)))"
    and width: "\<And>q w. P q \<Longrightarrow> P (q\<lparr>innerWidth := w\<rparr>)"
    and "P p"
  shows "P (dispatch p ev)"
proof (cases ev)
  case (Click t anc)
  have "P (propagate (t # anc) (t # anc) p)"
    by (rule propagate_preserves) (use assms in simp_all)
  then show ?thesis using Click by simp
next
  case (Resize w)
  have "P (fst (run_listeners (listeners p) OnWindow ResizeEv [] (p\<lparr>innerWidth := w\<rparr>)))"
    by (rule run_listeners_preserves) (use assms in simp_all)
  then show ?thesis using Resize by simp
qed

lemma run_preserves:
  assumes step: "\<And>tg ty h path q. (tg, ty, h) \<in> set (listeners p) \<Longrightarrow> P q \<Longrightarrow>
                   P (page_of (fst (run_handler h path q)))"
    and width: "\<And>q w. P q \<Longrightarrow> P (q\<lparr>innerWidth := w\<rparr>)"
    and "P p"
  shows "P (run p evs)"
  using assms unfolding run_def
proof (induction evs arbitrary: p)
  case Nil
  then show ?case by simp
next
  case (Cons ev evs)
  have d: "P (dispatch p ev)"
    by (rule dispatch_preserves) (use Cons.prems in simp_all)
  have "P (foldl dispatch (dispatch p ev) evs)"
    by (rule Cons.IH) (use Cons.prems(1,2) d in simp_all)
  then show ?case by simp
qed

section \<open>The page after the initialization\<close>

lemma init_listeners:
  "listeners (page_of (DOMContentLoaded p)) = listeners p @
     (case (querySelector p ''.menu-toggle'', querySelector p ''.header-menu'') of
        (Some mt, Some hm) \<Rightarrow>
          [(OnElement mt, ClickEv, MenuToggleClick mt hm),
           (OnDocument, ClickEv, DocumentClick mt hm),
           (OnWindow, ResizeEv, WindowResize mt hm)]
      | _ \<Rightarrow> []) @
     (case (querySelector p ''.lang-toggle'', querySelector p ''.lang-dropdown'') of
        (Some lt, Some ld) \<Rightarrow>
          if innerWidth p \<le> 768 then [(OnElement lt, ClickEv, LangToggleClick ld)] else []
      | _ \<Rightarrow> []) @
     (if getItem_throws (localStorage p) then []
      else case querySelector p ''.theme-toggle'' of
             Some tt \<Rightarrow> [(OnElement tt, ClickEv, ThemeToggleClick (documentElement p))]
           | None \<Rightarrow> [])"
  by (simp add: DOMContentLoaded_def theme_controller_throws theme_controller_completes
      menu_controller_listeners dropdown_controller_listeners cong: option.case_cong)

lemma init_node:
  "node (page_of (DOMContentLoaded p)) =
     (if getItem_throws (localStorage p) then node p
      else node (setAttribute p (documentElement p) ''data-theme''
                  (or_default (items (localStorage p) ''theme'') ''light'')))"
  by (simp add: DOMContentLoaded_def theme_controller_throws theme_controller_completes
      setAttribute_def)

lemma init_fields [simp]:
  "elements (page_of (DOMContentLoaded p)) = elements p"
  "documentElement (page_of (DOMContentLoaded p)) = documentElement p"
  "body (page_of (DOMContentLoaded p)) = body p"
  "innerWidth (page_of (DOMContentLoaded p)) = innerWidth p"
  "localStorage (page_of (DOMContentLoaded p)) = localStorage p"
  by (cases "getItem_throws (localStorage p)";
      simp add: DOMContentLoaded_def theme_controller_throws theme_controller_completes)+

lemma init_handler_disj:
  assumes "(tg, ty, h) \<in> set (listeners (page_of (DOMContentLoaded p)))"
    and "listeners p = []"
  shows
    "(\<exists>mt hm. querySelector p ''.menu-toggle'' = Some mt \<and>
        querySelector p ''.header-menu'' = Some hm \<and>
        ((tg = OnElement mt \<and> ty = ClickEv \<and> h = MenuToggleClick mt hm) \<or>
         (tg = OnDocument \<and> ty = ClickEv \<and> h = DocumentClick mt hm) \<or>
         (tg = OnWindow \<and> ty = ResizeEv \<and> h = WindowResize mt hm))) \<or>
     (\<exists>lt ld. querySelector p ''.lang-toggle'' = Some lt \<and>
        querySelector p ''.lang-dropdown'' = Some ld \<and> innerWidth p \<le> 768 \<and>
        tg = OnElement lt \<and> ty = ClickEv \<and> h = LangToggleClick ld) \<or>
     (\<exists>tt. querySelector p ''.theme-toggle'' = Some tt \<and>
        \<not> getItem_throws (localStorage p) \<and>
        tg = OnElement tt \<and> ty = ClickEv \<and> h = ThemeToggleClick (documentElement p))"
  using assms
  by (auto simp: init_listeners split: option.splits if_splits)

lemma init_handler_cases:
  assumes "(tg, ty, h) \<in> set (listeners (page_of (DOMContentLoaded p)))"
    and "listeners p = []"
  obtains
    (trigger) mt hm where
      "querySelector p ''.menu-toggle'' = Some mt" "querySelector p ''.header-menu'' = Some hm"
      "tg = OnElement mt" "ty = ClickEv" "h = MenuToggleClick mt hm"
  | (outside) mt hm where
      "querySelector p ''.menu-toggle'' = Some mt" "querySelector p ''.header-menu'' = Some hm"
      "tg = OnDocument" "ty = ClickEv" "h = DocumentClick mt hm"
  | (resize) mt hm where
      "querySelector p ''.menu-toggle'' = Some mt" "querySelector p ''.header-menu'' = Some hm"
      "tg = OnWindow" "ty = ResizeEv" "h = WindowResize mt hm"
  | (lang) lt ld where
      "querySelector p ''.lang-toggle'' = Some lt" "querySelector p ''.lang-dropdown'' = Some ld"
      "innerWidth p \<le> 768" "tg = OnElement lt" "ty = ClickEv" "h = LangToggleClick ld"
  | (theme) tt where
      "querySelector p ''.theme-toggle'' = Some tt" "\<not> getItem_throws (localStorage p)"
      "tg = OnElement tt" "ty = ClickEv" "h = ThemeToggleClick (documentElement p)"
  using init_handler_disj [OF assms] by blast

section \<open>The menu: attribute and class agree\<close>

lemma menuToggle_click_agrees:
  "menu_agrees mt hm p \<Longrightarrow> menu_agrees mt hm (menuToggle_click mt hm p)"
  by (simp add: menu_agrees_def menuToggle_click_def getAttribute_def setAttribute_def
      classList_toggle_def set_style_overflow_def js_string_of_bool_def Let_def)

lemma document_click_agrees:
  "menu_agrees mt hm p \<Longrightarrow> menu_agrees mt hm (document_click mt hm path p)"
  by (simp add: menu_agrees_def document_click_def getAttribute_def setAttribute_def
      classList_remove_def set_style_overflow_def Let_def)

lemma window_resize_agrees:
  "menu_agrees mt hm p \<Longrightarrow> menu_agrees mt hm (window_resize mt hm p)"
  by (simp add: menu_agrees_def window_resize_def getAttribute_def setAttribute_def
      classList_remove_def set_style_overflow_def Let_def)

lemma langToggle_click_agrees:
  "ld \<noteq> hm \<Longrightarrow> menu_agrees mt hm p \<Longrightarrow> menu_agrees mt hm (langToggle_click ld p)"
  by (auto simp: menu_agrees_def langToggle_click_def getAttribute_def classList_toggle_def)

lemma themeToggle_click_agrees:
  "menu_agrees mt hm p \<Longrightarrow> menu_agrees mt hm (page_of (themeToggle_click html p))"
  by (auto simp: menu_agrees_def themeToggle_click_def localStorage_setItem_def
      getAttribute_def setAttribute_def Let_def)

text \<open>
  C3. Start from a page on which no listener is attached yet and whose menu is closed
  (\<^verbatim>\<open>aria-expanded\<close> of the trigger is not \<^verbatim>\<open>"true"\<close>, the container has no \<^verbatim>\<open>is-open\<close>
  class), and whose menu container is not also the language dropdown. After the
  initialization and after every sequence of events, clicks on the menu trigger among
  them, \<^verbatim>\<open>aria-expanded\<close> of the trigger is \<^verbatim>\<open>"true"\<close> exactly when the menu container has
  the \<^verbatim>\<open>is-open\<close> class. Every click runs the whole propagation: the trigger's own
  listener first, then the document's.
\<close>

theorem menu_aria_matches_class:
  assumes fresh: "listeners p0 = []"
    and mt: "querySelector p0 ''.menu-toggle'' = Some mt"
    and hm: "querySelector p0 ''.header-menu'' = Some hm"
    and ld: "querySelector p0 ''.lang-dropdown'' \<noteq> Some hm"
    and closed: "getAttribute p0 mt ''aria-expanded'' \<noteq> Some ''true''"
                "''is-open'' \<notin> classList (node p0 hm)"
  shows "(getAttribute (run (page_of (DOMContentLoaded p0)) evs) mt ''aria-expanded'' = Some ''true'')
         = (''is-open'' \<in> classList (node (run (page_of (DOMContentLoaded p0)) evs) hm))"
proof -
  let ?p = "page_of (DOMContentLoaded p0)"
  have start: "menu_agrees mt hm ?p"
    using closed
    by (auto simp: menu_agrees_def getAttribute_def init_node setAttribute_def)
  have "menu_agrees mt hm (run ?p evs)"
  proof (rule run_preserves)
    fix tg ty h path q
    assume l: "(tg, ty, h) \<in> set (listeners ?p)" and q: "menu_agrees mt hm q"
    from l fresh show "menu_agrees mt hm (page_of (fst (run_handler h path q)))"
    proof (cases rule: init_handler_cases)
      case (lang lt ld')
      with ld have "ld' \<noteq> hm" by auto
      with lang q show ?thesis by (simp add: langToggle_click_agrees)
    qed (use mt hm q in \<open>simp_all add: menuToggle_click_agrees document_click_agrees
          window_resize_agrees themeToggle_click_agrees\<close>)
  next
    fix q w
    assume "menu_agrees mt hm q"
    then show "menu_agrees mt hm (q\<lparr>innerWidth := w\<rparr>)"
      by (simp add: menu_agrees_def getAttribute_def)
  next
    show "menu_agrees mt hm ?p" by (rule start)
  qed
  then show ?thesis by (simp add: menu_agrees_def)
qed

theorem menu_aria_matches_class_witness:
  "listeners sample_page = [] \<and>
   querySelector sample_page ''.menu-toggle'' = Some 3 \<and>
   querySelector sample_page ''.header-menu'' = Some 4 \<and>
   querySelector sample_page ''.lang-dropdown'' \<noteq> Some 4 \<and>
   getAttribute sample_page 3 ''aria-expanded'' \<noteq> Some ''true'' \<and>
   ''is-open'' \<notin> classList (node sample_page 4) \<and>
   ((getAttribute (run (page_of (DOMContentLoaded sample_page)) trigger_clicks) 3
       ''aria-expanded'' = Some ''true'')
    = (''is-open'' \<in> classList (node (run (page_of (DOMContentLoaded sample_page))
                                          trigger_clicks) 4)))"
proof -
  have a: "listeners sample_page = []"
    by (simp add: sample_page_def)
  have b: "querySelector sample_page ''.menu-toggle'' = Some 3"
    by (simp add: sample_selectors)
  have c: "querySelector sample_page ''.header-menu'' = Some 4"
    by (simp add: sample_selectors)
  have d: "querySelector sample_page ''.lang-dropdown'' \<noteq> Some 4"
    by (simp add: sample_selectors)
  have e: "getAttribute sample_page 3 ''aria-expanded'' \<noteq> Some ''true''"
    by (simp add: getAttribute_def sample_page_def sample_nodes_def plain_def)
  have f: "''is-open'' \<notin> classList (node sample_page 4)"
    by (simp add: sample_page_def sample_nodes_def plain_def)
  from menu_aria_matches_class [OF a b c d e f, of trigger_clicks] a b c d e f
  show ?thesis by blast
qed

section \<open>Theme: the default\<close>

text \<open>
  C8. When storage can be read and holds no \<^verbatim>\<open>theme\<close> value, the \<^verbatim>\<open>DOMContentLoaded\<close>
  listener runs to its end and leaves \<^verbatim>\<open>data-theme="light"\<close> on the document root. No
  event has been dispatched at that point: the value is there before any user interaction.
\<close>

theorem init_default_light:
  assumes "\<not> getItem_throws (localStorage p)" and "items (localStorage p) ''theme'' = None"
  shows "\<exists>p'. DOMContentLoaded p = Completed p' \<and>
           getAttribute p' (documentElement p') ''data-theme'' = Some ''light''"
  using assms
  by (simp add: DOMContentLoaded_def theme_controller_completes or_default_def
      getAttribute_def setAttribute_def)

theorem init_default_light_witness:
  "\<not> getItem_throws (localStorage sample_page) \<and>
   items (localStorage sample_page) ''theme'' = None \<and>
   (\<exists>p'. DOMContentLoaded sample_page = Completed p' \<and>
      getAttribute p' (documentElement p') ''data-theme'' = Some ''light'')"
  using init_default_light [of sample_page]
  by (simp add: sample_page_def empty_storage_def)

section \<open>The menu: scroll lock and resize\<close>

lemma menuToggle_click_effect:
  "getAttribute (menuToggle_click mt hm p) mt ''aria-expanded'' =
     Some (if getAttribute p mt ''aria-expanded'' = Some ''true'' then ''false'' else ''true'')"
  "style_overflow (node (menuToggle_click mt hm p) (body (menuToggle_click mt hm p))) =
     (if getAttribute p mt ''aria-expanded'' = Some ''true'' then '''' else ''hidden'')"
  "(''is-open'' \<in> classList (node (menuToggle_click mt hm p) hm)) =
     (''is-open'' \<notin> classList (node p hm))"
  by (simp_all add: menuToggle_click_def getAttribute_def setAttribute_def
      classList_toggle_def set_style_overflow_def js_string_of_bool_def Let_def)

lemma close_effect:
  "getAttribute (set_style_overflow (classList_remove
      (setAttribute p mt ''aria-expanded'' ''false'') hm ''is-open'') b '''') mt
      ''aria-expanded'' = Some ''false''"
  "''is-open'' \<notin> classList (node (set_style_overflow (classList_remove
      (setAttribute p mt ''aria-expanded'' ''false'') hm ''is-open'') b '''') hm)"
  "style_overflow (node (set_style_overflow (classList_remove
      (setAttribute p mt ''aria-expanded'' ''false'') hm ''is-open'') b '''') b) = ''''"
  by (simp_all add: getAttribute_def setAttribute_def classList_remove_def
      set_style_overflow_def)

lemma document_click_outside:
  assumes "closest p path ''.header-wrapper'' = None"
  shows "getAttribute (document_click mt hm path p) mt ''aria-expanded'' = Some ''false''"
    and "''is-open'' \<notin> classList (node (document_click mt hm path p) hm)"
    and "style_overflow (node (document_click mt hm path p)
           (body (document_click mt hm path p))) = ''''"
  using assms by (simp_all add: document_click_def Let_def close_effect)

lemma document_click_inside:
  "closest p path ''.header-wrapper'' \<noteq> None \<Longrightarrow> document_click mt hm path p = p"
  by (auto simp: document_click_def)

lemma window_resize_wide:
  assumes "768 < innerWidth p"
  shows "getAttribute (window_resize mt hm p) mt ''aria-expanded'' = Some ''false''"
    and "''is-open'' \<notin> classList (node (window_resize mt hm p) hm)"
    and "style_overflow (node (window_resize mt hm p) (body (window_resize mt hm p))) = ''''"
  using assms by (simp_all add: window_resize_def Let_def close_effect)

lemma window_resize_narrow:
  "innerWidth p \<le> 768 \<Longrightarrow> window_resize mt hm p = p"
  by (simp add: window_resize_def)

lemma close_closed:
  assumes "getAttribute p mt ''aria-expanded'' = Some ''false''"
    and "''is-open'' \<notin> classList (node p hm)"
    and "style_overflow (node p b) = ''''"
  shows "set_style_overflow (classList_remove
      (setAttribute p mt ''aria-expanded'' ''false'') hm ''is-open'') b '''' = p"
proof -
  have 1: "setAttribute p mt ''aria-expanded'' ''false'' = p"
    using assms(1) by (simp add: setAttribute_def getAttribute_def map_upd_triv)
  have 2: "classList_remove p hm ''is-open'' = p"
    using assms(2) by (simp add: classList_remove_def)
  have "(node p b)\<lparr>style_overflow := ''''\<rparr> = node p b"
    using assms(3) by (cases "node p b") simp
  then have 3: "set_style_overflow p b '''' = p"
    by (simp add: set_style_overflow_def)
  show ?thesis by (simp add: 1 2 3)
qed

lemma window_resize_closed:
  assumes "getAttribute p mt ''aria-expanded'' = Some ''false''"
    and "''is-open'' \<notin> classList (node p hm)"
    and "style_overflow (node p (body p)) = ''''"
  shows "window_resize mt hm p = p"
  using close_closed [OF assms] by (simp add: window_resize_def Let_def)

lemma dispatch_resize_init:
  assumes "listeners p0 = []"
    and "querySelector p0 ''.menu-toggle'' = Some mt"
    and "querySelector p0 ''.header-menu'' = Some hm"
    and "listeners p = listeners (page_of (DOMContentLoaded p0))"
  shows "dispatch p (Resize w) = window_resize mt hm (p\<lparr>innerWidth := w\<rparr>)"
  using assms by (simp add: init_listeners split: option.splits)

lemma menuToggle_click_tracks: "overflow_tracks mt p (menuToggle_click mt hm q)"
  by (simp add: overflow_tracks_def overflow_matches_def menuToggle_click_effect)

lemma document_click_tracks:
  "overflow_tracks mt p q \<Longrightarrow> overflow_tracks mt p (document_click mt hm path q)"
  by (cases "closest q path ''.header-wrapper'' = None")
     (simp_all add: overflow_tracks_def overflow_matches_def document_click_outside
        document_click_inside)

lemma window_resize_tracks:
  "overflow_tracks mt p q \<Longrightarrow> overflow_tracks mt p (window_resize mt hm q)"
  by (cases "768 < innerWidth q")
     (simp_all add: overflow_tracks_def overflow_matches_def window_resize_wide
        window_resize_narrow)

lemma langToggle_click_tracks:
  "overflow_tracks mt p q \<Longrightarrow> overflow_tracks mt p (langToggle_click ld q)"
  by (auto simp: overflow_tracks_def overflow_matches_def langToggle_click_def
      getAttribute_def classList_toggle_def)

lemma themeToggle_click_tracks:
  "overflow_tracks mt p q \<Longrightarrow> overflow_tracks mt p (page_of (themeToggle_click html q))"
  by (auto simp: overflow_tracks_def overflow_matches_def themeToggle_click_def
      localStorage_setItem_def getAttribute_def setAttribute_def Let_def)

lemma dispatch_tracks:
  assumes fresh: "listeners p0 = []"
    and mt: "querySelector p0 ''.menu-toggle'' = Some mt"
    and hm: "querySelector p0 ''.header-menu'' = Some hm"
    and p: "listeners p = listeners (page_of (DOMContentLoaded p0))"
  shows "overflow_tracks mt p (dispatch p ev)"
proof (rule dispatch_preserves)
  fix tg ty h path q
  assume l: "(tg, ty, h) \<in> set (listeners p)" and q: "overflow_tracks mt p q"
  from l p have "(tg, ty, h) \<in> set (listeners (page_of (DOMContentLoaded p0)))" by simp
  from this fresh show "overflow_tracks mt p (page_of (fst (run_handler h path q)))"
    by (cases rule: init_handler_cases)
       (use mt hm q in \<open>simp_all add: menuToggle_click_tracks document_click_tracks
          window_resize_tracks langToggle_click_tracks themeToggle_click_tracks\<close>)
next
  fix q w
  assume "overflow_tracks mt p q"
  then show "overflow_tracks mt p (q\<lparr>innerWidth := w\<rparr>)"
    by (simp add: overflow_tracks_def overflow_matches_def getAttribute_def)
next
  show "overflow_tracks mt p p" by (simp add: overflow_tracks_def)
qed

text \<open>The defining equations, for evaluating the model on a concrete page.\<close>

lemmas model_defs =
  DOMContentLoaded_def theme_controller_def menu_controller_def dropdown_controller_def
  querySelector_def closest_def getAttribute_def setAttribute_def classList_toggle_def
  classList_remove_def set_style_overflow_def addEventListener_def localStorage_getItem_def
  localStorage_setItem_def js_string_of_bool_def or_default_def menuToggle_click_def
  document_click_def window_resize_def langToggle_click_def themeToggle_click_def run_def
  Let_def

lemmas sample_defs = sample_page_def sample_nodes_def plain_def empty_storage_def

text \<open>
  C4. On a page as the initialization leaves it, with both menu elements present, and
  after any events: whenever an event takes the menu from closed to open (as read from
  \<^verbatim>\<open>aria-expanded\<close> of the trigger), the body's inline overflow is \<^verbatim>\<open>"hidden"\<close>
  afterwards, and whenever an event takes it from open to closed, the overflow is \<^verbatim>\<open>""\<close>
  afterwards, whichever listener closed it. Listener by listener: the trigger's click
  opens a closed menu with overflow \<^verbatim>\<open>"hidden"\<close> and closes an open one with overflow
  \<^verbatim>\<open>""\<close>; the document's click with a target outside \<^verbatim>\<open>.header-wrapper\<close> and the
  resize above 768 both close with overflow \<^verbatim>\<open>""\<close>.
\<close>

theorem overflow_follows_menu:
  assumes fresh: "listeners p0 = []"
    and mt: "querySelector p0 ''.menu-toggle'' = Some mt"
    and hm: "querySelector p0 ''.header-menu'' = Some hm"
    and p: "p = run (page_of (DOMContentLoaded p0)) evs"
  shows
    "(getAttribute p mt ''aria-expanded'' \<noteq> Some ''true'' \<and>
      getAttribute (dispatch p ev) mt ''aria-expanded'' = Some ''true'' \<longrightarrow>
        body_overflow (dispatch p ev) = ''hidden'') \<and>
     (getAttribute p mt ''aria-expanded'' = Some ''true'' \<and>
      getAttribute (dispatch p ev) mt ''aria-expanded'' \<noteq> Some ''true'' \<longrightarrow>
        body_overflow (dispatch p ev) = '''') \<and>
     (getAttribute q mt ''aria-expanded'' \<noteq> Some ''true'' \<longrightarrow>
        getAttribute (menuToggle_click mt hm q) mt ''aria-expanded'' = Some ''true'' \<and>
        body_overflow (menuToggle_click mt hm q) = ''hidden'') \<and>
     (getAttribute q mt ''aria-expanded'' = Some ''true'' \<longrightarrow>
        getAttribute (menuToggle_click mt hm q) mt ''aria-expanded'' = Some ''false'' \<and>
        body_overflow (menuToggle_click mt hm q) = '''') \<and>
     (closest q path ''.header-wrapper'' = None \<longrightarrow>
        getAttribute (document_click mt hm path q) mt ''aria-expanded'' = Some ''false'' \<and>
        body_overflow (document_click mt hm path q) = '''') \<and>
     (768 < innerWidth q \<longrightarrow>
        getAttribute (window_resize mt hm q) mt ''aria-expanded'' = Some ''false'' \<and>
        body_overflow (window_resize mt hm q) = '''')"
proof -
  have l: "listeners p = listeners (page_of (DOMContentLoaded p0))"
    using p by simp
  have t: "overflow_tracks mt p (dispatch p ev)"
    by (rule dispatch_tracks [OF fresh mt hm l])
  have a: "getAttribute p mt ''aria-expanded'' \<noteq> Some ''true'' \<and>
      getAttribute (dispatch p ev) mt ''aria-expanded'' = Some ''true'' \<longrightarrow>
        body_overflow (dispatch p ev) = ''hidden''"
    using t by (auto simp: overflow_tracks_def overflow_matches_def body_overflow_def)
  have b: "getAttribute p mt ''aria-expanded'' = Some ''true'' \<and>
      getAttribute (dispatch p ev) mt ''aria-expanded'' \<noteq> Some ''true'' \<longrightarrow>
        body_overflow (dispatch p ev) = ''''"
    using t by (auto simp: overflow_tracks_def overflow_matches_def body_overflow_def)
  have c: "getAttribute q mt ''aria-expanded'' \<noteq> Some ''true'' \<longrightarrow>
        getAttribute (menuToggle_click mt hm q) mt ''aria-expanded'' = Some ''true'' \<and>
        body_overflow (menuToggle_click mt hm q) = ''hidden''"
    by (simp add: body_overflow_def menuToggle_click_effect)
  have d: "getAttribute q mt ''aria-expanded'' = Some ''true'' \<longrightarrow>
        getAttribute (menuToggle_click mt hm q) mt ''aria-expanded'' = Some ''false'' \<and>
        body_overflow (menuToggle_click mt hm q) = ''''"
    by (simp add: body_overflow_def menuToggle_click_effect)
  have e: "closest q path ''.header-wrapper'' = None \<longrightarrow>
        getAttribute (document_click mt hm path q) mt ''aria-expanded'' = Some ''false'' \<and>
        body_overflow (document_click mt hm path q) = ''''"
    by (simp add: body_overflow_def document_click_outside)
  have f: "768 < innerWidth q \<longrightarrow>
        getAttribute (window_resize mt hm q) mt ''aria-expanded'' = Some ''false'' \<and>
        body_overflow (window_resize mt hm q) = ''''"
    by (simp add: body_overflow_def window_resize_wide)
  from a b c d e f show ?thesis by blast
qed

theorem overflow_follows_menu_witness:
  "listeners sample_page = [] \<and>
   querySelector sample_page ''.menu-toggle'' = Some 3 \<and>
   querySelector sample_page ''.header-menu'' = Some 4 \<and>
   getAttribute (run (page_of (DOMContentLoaded sample_page)) []) 3 ''aria-expanded''
     \<noteq> Some ''true'' \<and>
   getAttribute (dispatch (run (page_of (DOMContentLoaded sample_page)) []) (Click 3 [2, 1, 0]))
     3 ''aria-expanded'' = Some ''true'' \<and>
   body_overflow (dispatch (run (page_of (DOMContentLoaded sample_page)) [])
     (Click 3 [2, 1, 0])) = ''hidden'' \<and>
   getAttribute (run (page_of (DOMContentLoaded sample_page)) [Click 3 [2, 1, 0]]) 3
     ''aria-expanded'' = Some ''true'' \<and>
   getAttribute (dispatch (run (page_of (DOMContentLoaded sample_page)) [Click 3 [2, 1, 0]])
     (Click 8 [1, 0])) 3 ''aria-expanded'' \<noteq> Some ''true'' \<and>
   body_overflow (dispatch (run (page_of (DOMContentLoaded sample_page)) [Click 3 [2, 1, 0]])
     (Click 8 [1, 0])) = ''''"
proof -
  have a: "listeners sample_page = []"
    by (simp add: sample_page_def)
  note b = sample_selectors(1) and c = sample_selectors(2)
  have o1: "getAttribute (run (page_of (DOMContentLoaded sample_page)) []) 3 ''aria-expanded''
     \<noteq> Some ''true''"
    by (simp add: model_defs sample_defs)
  have o2: "getAttribute (dispatch (run (page_of (DOMContentLoaded sample_page)) [])
     (Click 3 [2, 1, 0])) 3 ''aria-expanded'' = Some ''true''"
    by (simp add: model_defs sample_defs)
  have c1: "getAttribute (run (page_of (DOMContentLoaded sample_page)) [Click 3 [2, 1, 0]]) 3
     ''aria-expanded'' = Some ''true''"
    by (simp add: model_defs sample_defs)
  have c2: "getAttribute (dispatch (run (page_of (DOMContentLoaded sample_page))
     [Click 3 [2, 1, 0]]) (Click 8 [1, 0])) 3 ''aria-expanded'' \<noteq> Some ''true''"
    by (simp add: model_defs sample_defs)
  from overflow_follows_menu [OF a b c refl, of "[]" "Click 3 [2, 1, 0]"]
       overflow_follows_menu [OF a b c refl, of "[Click 3 [2, 1, 0]]" "Click 8 [1, 0]"]
       a b c o1 o2 c1 c2
  show ?thesis by blast
qed

text \<open>
  C7. On a page as the initialization leaves it, with both menu elements present, and
  after any events, a resize to a width \<open>w\<close>: if \<open>w > 768\<close> the menu is closed afterwards
  (\<^verbatim>\<open>aria-expanded="false"\<close>, no \<^verbatim>\<open>is-open\<close> class, overflow \<^verbatim>\<open>""\<close>), and if it was closed
  already nothing but the recorded width changes; if \<open>w \<le> 768\<close> nothing but the recorded
  width changes.
\<close>

theorem resize_closes_menu:
  assumes fresh: "listeners p0 = []"
    and mt: "querySelector p0 ''.menu-toggle'' = Some mt"
    and hm: "querySelector p0 ''.header-menu'' = Some hm"
    and p: "p = run (page_of (DOMContentLoaded p0)) evs"
  shows
    "(768 < w \<longrightarrow>
        getAttribute (dispatch p (Resize w)) mt ''aria-expanded'' = Some ''false'' \<and>
        ''is-open'' \<notin> classList (node (dispatch p (Resize w)) hm) \<and>
        body_overflow (dispatch p (Resize w)) = '''') \<and>
     (768 < w \<and> getAttribute p mt ''aria-expanded'' = Some ''false'' \<and>
      ''is-open'' \<notin> classList (node p hm) \<and> body_overflow p = '''' \<longrightarrow>
        dispatch p (Resize w) = p\<lparr>innerWidth := w\<rparr>) \<and>
     (w \<le> 768 \<longrightarrow> dispatch p (Resize w) = p\<lparr>innerWidth := w\<rparr>)"
proof -
  have l: "listeners p = listeners (page_of (DOMContentLoaded p0))"
    using p by simp
  have d: "dispatch p (Resize w) = window_resize mt hm (p\<lparr>innerWidth := w\<rparr>)"
    by (rule dispatch_resize_init [OF fresh mt hm l])
  have a: "768 < w \<longrightarrow>
        getAttribute (dispatch p (Resize w)) mt ''aria-expanded'' = Some ''false'' \<and>
        ''is-open'' \<notin> classList (node (dispatch p (Resize w)) hm) \<and>
        body_overflow (dispatch p (Resize w)) = ''''"
    unfolding d by (simp add: body_overflow_def window_resize_wide)
  have b: "768 < w \<and> getAttribute p mt ''aria-expanded'' = Some ''false'' \<and>
      ''is-open'' \<notin> classList (node p hm) \<and> body_overflow p = '''' \<longrightarrow>
        dispatch p (Resize w) = p\<lparr>innerWidth := w\<rparr>"
    unfolding d
    by (auto simp: body_overflow_def getAttribute_def intro!: window_resize_closed)
  have c: "w \<le> 768 \<longrightarrow> dispatch p (Resize w) = p\<lparr>innerWidth := w\<rparr>"
    unfolding d by (simp add: window_resize_narrow)
  from a b c show ?thesis by blast
qed

theorem resize_closes_menu_witness:
  "listeners sample_page = [] \<and>
   querySelector sample_page ''.menu-toggle'' = Some 3 \<and>
   querySelector sample_page ''.header-menu'' = Some 4 \<and>
   (768 :: int) < 1024 \<and>
   getAttribute (run (page_of (DOMContentLoaded sample_page)) [Click 3 [2, 1, 0]]) 3
     ''aria-expanded'' = Some ''true'' \<and>
   getAttribute (dispatch (run (page_of (DOMContentLoaded sample_page)) [Click 3 [2, 1, 0]])
     (Resize 1024)) 3 ''aria-expanded'' = Some ''false'' \<and>
   ''is-open'' \<notin> classList (node (dispatch (run (page_of (DOMContentLoaded sample_page))
     [Click 3 [2, 1, 0]]) (Resize 1024)) 4) \<and>
   body_overflow (dispatch (run (page_of (DOMContentLoaded sample_page)) [Click 3 [2, 1, 0]])
     (Resize 1024)) = '''' \<and>
   getAttribute (run (page_of (DOMContentLoaded sample_page)) []) 3 ''aria-expanded''
     = Some ''false'' \<and>
   ''is-open'' \<notin> classList (node (run (page_of (DOMContentLoaded sample_page)) []) 4) \<and>
   body_overflow (run (page_of (DOMContentLoaded sample_page)) []) = '''' \<and>
   dispatch (run (page_of (DOMContentLoaded sample_page)) []) (Resize 1024)
     = (run (page_of (DOMContentLoaded sample_page)) [])\<lparr>innerWidth := 1024\<rparr> \<and>
   (500 :: int) \<le> 768 \<and>
   dispatch (run (page_of (DOMContentLoaded sample_page)) [Click 3 [2, 1, 0]]) (Resize 500)
     = (run (page_of (DOMContentLoaded sample_page)) [Click 3 [2, 1, 0]])\<lparr>innerWidth := 500\<rparr>"
proof -
  have a: "listeners sample_page = []"
    by (simp add: sample_page_def)
  note b = sample_selectors(1) and c = sample_selectors(2)
  have o: "getAttribute (run (page_of (DOMContentLoaded sample_page)) [Click 3 [2, 1, 0]]) 3
     ''aria-expanded'' = Some ''true''"
    by (simp add: model_defs sample_defs)
  have c1: "getAttribute (run (page_of (DOMContentLoaded sample_page)) []) 3 ''aria-expanded''
     = Some ''false''"
    by (simp add: model_defs sample_defs)
  have c2: "''is-open'' \<notin> classList (node (run (page_of (DOMContentLoaded sample_page)) []) 4)"
    by (simp add: model_defs sample_defs)
  have c3: "body_overflow (run (page_of (DOMContentLoaded sample_page)) []) = ''''"
    by (simp add: body_overflow_def model_defs sample_defs)
  have w: "(768 :: int) < 1024" and n: "(500 :: int) \<le> 768"
    by simp_all
  from resize_closes_menu [where evs = "[Click 3 [2, 1, 0]]" and w = 1024, OF a b c refl]
       resize_closes_menu [where evs = "[]" and w = 1024, OF a b c refl]
       resize_closes_menu [where evs = "[Click 3 [2, 1, 0]]" and w = 500, OF a b c refl]
       a b c o c1 c2 c3 w n
  show ?thesis by blast
qed

section \<open>The language dropdown\<close>

lemma langToggle_click_effect:
  "(''is-open'' \<in> classList (node (langToggle_click ld p) ld)) =
     (''is-open'' \<notin> classList (node p ld))"
  "e \<noteq> ld \<Longrightarrow> node (langToggle_click ld p) e = node p e"
  "attributes (node (langToggle_click ld p) e) = attributes (node p e)"
  "style_overflow (node (langToggle_click ld p) e) = style_overflow (node p e)"
  "localStorage (langToggle_click ld p) = localStorage p"
  by (simp_all add: langToggle_click_def classList_toggle_def)

lemma themeToggle_click_node:
  "classList (node (page_of (themeToggle_click html p)) e) = classList (node p e)"
  "style_overflow (node (page_of (themeToggle_click html p)) e) = style_overflow (node p e)"
  "a \<noteq> ''data-theme'' \<Longrightarrow>
     getAttribute (page_of (themeToggle_click html p)) e a = getAttribute p e a"
  by (simp_all add: themeToggle_click_def localStorage_setItem_def setAttribute_def
      getAttribute_def Let_def)

text \<open>The listeners on the language toggle itself, on a page initialized while narrow.\<close>

lemma lang_toggle_listeners:
  assumes fresh: "listeners p0 = []"
    and lt: "querySelector p0 ''.lang-toggle'' = Some lt"
    and ld: "querySelector p0 ''.lang-dropdown'' = Some ld"
    and narrow: "innerWidth p0 \<le> 768"
    and other: "querySelector p0 ''.menu-toggle'' \<noteq> Some lt"
    and l: "listeners p = listeners (page_of (DOMContentLoaded p0))"
  shows "run_listeners (listeners p) (OnElement lt) ClickEv path p =
     (if \<not> getItem_throws (localStorage p0) \<and> querySelector p0 ''.theme-toggle'' = Some lt
      then page_of (themeToggle_click (documentElement p0) (langToggle_click ld p))
      else langToggle_click ld p, True)"
  using lt ld narrow other
  by (auto simp: l init_listeners fresh split: option.splits)

lemma lang_click_dispatch:
  assumes fresh: "listeners p0 = []"
    and lt: "querySelector p0 ''.lang-toggle'' = Some lt"
    and ld: "querySelector p0 ''.lang-dropdown'' = Some ld"
    and narrow: "innerWidth p0 \<le> 768"
    and other: "querySelector p0 ''.menu-toggle'' \<noteq> Some lt"
    and l: "listeners p = listeners (page_of (DOMContentLoaded p0))"
  shows "dispatch p (Click lt anc) =
     (if \<not> getItem_throws (localStorage p0) \<and> querySelector p0 ''.theme-toggle'' = Some lt
      then page_of (themeToggle_click (documentElement p0) (langToggle_click ld p))
      else langToggle_click ld p)"
  by (simp add: lang_toggle_listeners [OF assms])

text \<open>
  C6 (amended). The width that counts is the one read at the initialization: the listener
  of the language toggle is attached only if both elements exist and the viewport is at
  most 768 wide at that moment. On such a page, with the language toggle not being the
  menu trigger itself, and after any events (resizes among them), a click on the language
  toggle flips the \<^verbatim>\<open>is-open\<close> class of the dropdown and runs the listeners of the toggle
  itself only: the propagation stops there, so no ancestor and no document listener runs.
  The click changes no class list but the dropdown's, no \<^verbatim>\<open>aria-expanded\<close> attribute and
  no overflow style.
\<close>

theorem lang_click_toggles_dropdown_only:
  assumes fresh: "listeners p0 = []"
    and lt: "querySelector p0 ''.lang-toggle'' = Some lt"
    and ld: "querySelector p0 ''.lang-dropdown'' = Some ld"
    and narrow: "innerWidth p0 \<le> 768"
    and other: "querySelector p0 ''.menu-toggle'' \<noteq> Some lt"
    and p: "p = run (page_of (DOMContentLoaded p0)) evs"
  shows
    "(''is-open'' \<in> classList (node (dispatch p (Click lt anc)) ld)) =
       (''is-open'' \<notin> classList (node p ld)) \<and>
     dispatch p (Click lt anc) =
       fst (run_listeners (listeners p) (OnElement lt) ClickEv (lt # anc) p) \<and>
     (e \<noteq> ld \<longrightarrow> classList (node (dispatch p (Click lt anc)) e) = classList (node p e)) \<and>
     getAttribute (dispatch p (Click lt anc)) e ''aria-expanded'' =
       getAttribute p e ''aria-expanded'' \<and>
     style_overflow (node (dispatch p (Click lt anc)) e) = style_overflow (node p e)"
proof -
  have l: "listeners p = listeners (page_of (DOMContentLoaded p0))"
    using p by simp
  note d = lang_click_dispatch [OF fresh lt ld narrow other l]
  note r = lang_toggle_listeners [OF fresh lt ld narrow other l]
  have 1: "(''is-open'' \<in> classList (node (dispatch p (Click lt anc)) ld)) =
       (''is-open'' \<notin> classList (node p ld))"
    unfolding d by (simp add: themeToggle_click_node langToggle_click_effect)
  have 2: "dispatch p (Click lt anc) =
       fst (run_listeners (listeners p) (OnElement lt) ClickEv (lt # anc) p)"
    by (simp add: r)
  have 3: "e \<noteq> ld \<longrightarrow> classList (node (dispatch p (Click lt anc)) e) = classList (node p e)"
    unfolding d by (simp add: themeToggle_click_node langToggle_click_effect)
  have 4: "getAttribute (dispatch p (Click lt anc)) e ''aria-expanded'' =
       getAttribute p e ''aria-expanded''"
    unfolding d
    by (simp add: themeToggle_click_node) (simp add: getAttribute_def langToggle_click_effect)
  have 5: "style_overflow (node (dispatch p (Click lt anc)) e) = style_overflow (node p e)"
    unfolding d by (simp add: themeToggle_click_node langToggle_click_effect)
  from 1 2 3 4 5 show ?thesis by blast
qed

theorem lang_click_toggles_dropdown_only_witness:
  "listeners sample_page = [] \<and>
   querySelector sample_page ''.lang-toggle'' = Some 5 \<and>
   querySelector sample_page ''.lang-dropdown'' = Some 6 \<and>
   innerWidth sample_page \<le> 768 \<and>
   querySelector sample_page ''.menu-toggle'' \<noteq> Some 5 \<and>
   (''is-open'' \<in> classList (node (dispatch (run (page_of (DOMContentLoaded sample_page))
       [Click 3 [2, 1, 0]]) (Click 5 [2, 1, 0])) 6)) =
     (''is-open'' \<notin> classList (node (run (page_of (DOMContentLoaded sample_page))
       [Click 3 [2, 1, 0]]) 6)) \<and>
   (4 :: nat) \<noteq> 6 \<and>
   classList (node (dispatch (run (page_of (DOMContentLoaded sample_page))
       [Click 3 [2, 1, 0]]) (Click 5 [2, 1, 0])) 4) =
     classList (node (run (page_of (DOMContentLoaded sample_page)) [Click 3 [2, 1, 0]]) 4) \<and>
   getAttribute (dispatch (run (page_of (DOMContentLoaded sample_page))
       [Click 3 [2, 1, 0]]) (Click 5 [2, 1, 0])) 3 ''aria-expanded'' =
     getAttribute (run (page_of (DOMContentLoaded sample_page)) [Click 3 [2, 1, 0]]) 3
       ''aria-expanded'' \<and>
   style_overflow (node (dispatch (run (page_of (DOMContentLoaded sample_page))
       [Click 3 [2, 1, 0]]) (Click 5 [2, 1, 0])) 1) =
     style_overflow (node (run (page_of (DOMContentLoaded sample_page)) [Click 3 [2, 1, 0]]) 1)"
proof -
  have a: "listeners sample_page = []"
    by (simp add: sample_page_def)
  note b = sample_selectors(3) and c = sample_selectors(4)
  have d: "innerWidth sample_page \<le> 768"
    by (simp add: sample_page_def)
  have e: "querySelector sample_page ''.menu-toggle'' \<noteq> Some 5"
    by (simp add: sample_selectors)
  have f: "(4 :: nat) \<noteq> 6"
    by simp
  from lang_click_toggles_dropdown_only
         [where evs = "[Click 3 [2, 1, 0]]" and anc = "[2, 1, 0]" and e = 4, OF a b c d e refl]
       lang_click_toggles_dropdown_only
         [where evs = "[Click 3 [2, 1, 0]]" and anc = "[2, 1, 0]" and e = 3, OF a b c d e refl]
       lang_click_toggles_dropdown_only
         [where evs = "[Click 3 [2, 1, 0]]" and anc = "[2, 1, 0]" and e = 1, OF a b c d e refl]
       a b c d e f
  show ?thesis by blast
qed

text \<open>
  With the width read at the time of the click the statement fails: a page loaded 1024
  wide and resized to 500 has no listener on the language toggle, and a click on it
  leaves the dropdown without the \<^verbatim>\<open>is-open\<close> class.
\<close>

theorem lang_click_wide_init_counterexample:
  "innerWidth (run (page_of (DOMContentLoaded wide_page)) [Resize 500]) \<le> 768 \<and>
   querySelector wide_page ''.lang-toggle'' = Some 5 \<and>
   querySelector wide_page ''.lang-dropdown'' = Some 6 \<and>
   ''is-open'' \<notin> classList (node (run (page_of (DOMContentLoaded wide_page)) [Resize 500]) 6) \<and>
   ''is-open'' \<notin> classList (node (dispatch (run (page_of (DOMContentLoaded wide_page))
      [Resize 500]) (Click 5 [2, 1, 0])) 6)"
  by (simp add: wide_page_def model_defs sample_defs)

text \<open>A page initialized while wide never gets the listener of the language toggle.\<close>

lemma lang_listener_needs_narrow_init:
  assumes "listeners p0 = []" and "768 < innerWidth p0"
  shows "(tg, ty, LangToggleClick ld) \<notin> set (listeners (page_of (DOMContentLoaded p0)))"
  using assms by (auto simp: init_listeners split: option.splits if_splits)

section \<open>Missing elements\<close>

text \<open>
  C9. If the menu trigger or the menu container is missing, the menu part of the
  initialization changes nothing, no listener that the initialization attaches is one of
  the three menu listeners, and the initialization throws exactly when reading storage
  throws: a missing element raises no failure.
\<close>

theorem menu_controller_absent:
  assumes "querySelector p ''.menu-toggle'' = None \<or> querySelector p ''.header-menu'' = None"
  shows "menu_controller p = p \<and>
         (\<forall>l \<in> set (listeners (page_of (DOMContentLoaded p))).
            l \<in> set (listeners p) \<or> \<not> is_menu_handler (snd (snd l))) \<and>
         ((\<exists>e q. DOMContentLoaded p = Threw e q) = getItem_throws (localStorage p))"
proof -
  have 1: "menu_controller p = p"
    using assms by (auto simp: menu_controller_def split: option.splits)
  have 2: "\<forall>l \<in> set (listeners (page_of (DOMContentLoaded p))).
            l \<in> set (listeners p) \<or> \<not> is_menu_handler (snd (snd l))"
    using assms by (auto simp: init_listeners split: option.splits if_splits)
  have 3: "(\<exists>e q. DOMContentLoaded p = Threw e q) = getItem_throws (localStorage p)"
    by (cases "getItem_throws (localStorage p)")
       (simp_all add: DOMContentLoaded_def theme_controller_throws theme_controller_completes)
  from 1 2 3 show ?thesis by blast
qed

theorem menu_controller_absent_witness:
  "querySelector no_trigger_page ''.menu-toggle'' = None \<and>
   menu_controller no_trigger_page = no_trigger_page \<and>
   \<not> getItem_throws (localStorage no_trigger_page) \<and>
   \<not> (\<exists>e q. DOMContentLoaded no_trigger_page = Threw e q) \<and>
   listeners (page_of (DOMContentLoaded no_trigger_page)) =
     [(OnElement 5, ClickEv, LangToggleClick 6), (OnElement 7, ClickEv, ThemeToggleClick 0)]"
proof -
  have a: "querySelector no_trigger_page ''.menu-toggle'' = None"
    by (simp add: no_trigger_page_def model_defs sample_defs)
  have b: "\<not> getItem_throws (localStorage no_trigger_page)"
    by (simp add: no_trigger_page_def sample_defs)
  have c: "listeners (page_of (DOMContentLoaded no_trigger_page)) =
     [(OnElement 5, ClickEv, LangToggleClick 6), (OnElement 7, ClickEv, ThemeToggleClick 0)]"
    by (simp add: no_trigger_page_def model_defs sample_defs)
  from menu_controller_absent [of no_trigger_page] a b c
  show ?thesis by blast
qed

text \<open>
  C10. Without a \<^verbatim>\<open>.theme-toggle\<close> element, and with readable storage, the initialization
  completes; \<^verbatim>\<open>data-theme\<close> on the document root is the stored theme whenever a non-empty
  one is stored, and \<^verbatim>\<open>"light"\<close> when none or the empty string is stored; the theme part
  attaches no listener.
\<close>

theorem theme_applied_without_toggle:
  assumes "querySelector p ''.theme-toggle'' = None"
    and "\<not> getItem_throws (localStorage p)"
  shows "\<exists>p'. DOMContentLoaded p = Completed p' \<and>
           (\<forall>v. items (localStorage p) ''theme'' = Some v \<and> v \<noteq> '''' \<longrightarrow>
                getAttribute p' (documentElement p') ''data-theme'' = Some v) \<and>
           (items (localStorage p) ''theme'' = None \<or>
            items (localStorage p) ''theme'' = Some '''' \<longrightarrow>
                getAttribute p' (documentElement p') ''data-theme'' = Some ''light'') \<and>
           listeners p' = listeners (dropdown_controller (menu_controller p))"
  using assms
  by (auto simp: DOMContentLoaded_def theme_controller_completes getAttribute_def
      setAttribute_def or_default_def)

theorem theme_applied_without_toggle_witness:
  "querySelector dark_no_theme_toggle_page ''.theme-toggle'' = None \<and>
   \<not> getItem_throws (localStorage dark_no_theme_toggle_page) \<and>
   items (localStorage dark_no_theme_toggle_page) ''theme'' = Some ''dark'' \<and>
   ''dark'' \<noteq> '''' \<and>
   (\<exists>p'. DOMContentLoaded dark_no_theme_toggle_page = Completed p' \<and>
      getAttribute p' (documentElement p') ''data-theme'' = Some ''dark'' \<and>
      listeners p' = listeners (dropdown_controller (menu_controller dark_no_theme_toggle_page))) \<and>
   querySelector no_theme_toggle_page ''.theme-toggle'' = None \<and>
   \<not> getItem_throws (localStorage no_theme_toggle_page) \<and>
   items (localStorage no_theme_toggle_page) ''theme'' = None \<and>
   (\<exists>p'. DOMContentLoaded no_theme_toggle_page = Completed p' \<and>
      getAttribute p' (documentElement p') ''data-theme'' = Some ''light'' \<and>
      listeners p' = listeners (dropdown_controller (menu_controller no_theme_toggle_page)))"
proof -
  have a: "querySelector dark_no_theme_toggle_page ''.theme-toggle'' = None"
    by (simp add: dark_no_theme_toggle_page_def dark_page_def model_defs sample_defs)
  have b: "\<not> getItem_throws (localStorage dark_no_theme_toggle_page)"
    by (simp add: dark_no_theme_toggle_page_def dark_page_def)
  have c: "items (localStorage dark_no_theme_toggle_page) ''theme'' = Some ''dark''"
    by (simp add: dark_no_theme_toggle_page_def dark_page_def)
  have d: "''dark'' \<noteq> ''''"
    by simp
  have a': "querySelector no_theme_toggle_page ''.theme-toggle'' = None"
    by (simp add: no_theme_toggle_page_def model_defs sample_defs)
  have b': "\<not> getItem_throws (localStorage no_theme_toggle_page)"
    by (simp add: no_theme_toggle_page_def sample_defs)
  have c': "items (localStorage no_theme_toggle_page) ''theme'' = None"
    by (simp add: no_theme_toggle_page_def sample_defs)
  from theme_applied_without_toggle [OF a b] c d
  have 1: "\<exists>p'. DOMContentLoaded dark_no_theme_toggle_page = Completed p' \<and>
      getAttribute p' (documentElement p') ''data-theme'' = Some ''dark'' \<and>
      listeners p' = listeners (dropdown_controller (menu_controller dark_no_theme_toggle_page))"
    by blast
  from theme_applied_without_toggle [OF a' b'] c'
  have 2: "\<exists>p'. DOMContentLoaded no_theme_toggle_page = Completed p' \<and>
      getAttribute p' (documentElement p') ''data-theme'' = Some ''light'' \<and>
      listeners p' = listeners (dropdown_controller (menu_controller no_theme_toggle_page))"
    by blast
  from a b c d 1 a' b' c' 2 show ?thesis by blast
qed

section \<open>The theme\<close>

lemma run_listeners_establishes:
  assumes mem: "(tg, ty, h) \<in> set ls"
    and est: "\<And>q. I q \<Longrightarrow> Q (page_of (fst (run_handler h path q)))"
    and presQ: "\<And>h' q. (tg, ty, h') \<in> set ls \<Longrightarrow> Q q \<Longrightarrow>
                  Q (page_of (fst (run_handler h' path q)))"
    and presI: "\<And>h' q. (tg, ty, h') \<in> set ls \<Longrightarrow> I q \<Longrightarrow>
                  I (page_of (fst (run_handler h' path q)))"
    and "I p"
  shows "Q (fst (run_listeners ls tg ty path p))"
  using assms
proof (induction ls arbitrary: p)
  case Nil
  then show ?case by simp
next
  case (Cons l ls)
  obtain tg' ty' h' where l: "l = (tg', ty', h')" by (cases l)
  show ?case
  proof (cases "l = (tg, ty, h)")
    case True
    have q: "Q (page_of (fst (run_handler h path p)))"
      using Cons.prems(2,5) by simp
    have "Q (fst (run_listeners ls tg ty path (page_of (fst (run_handler h path p)))))"
      by (rule run_listeners_preserves) (use Cons.prems(3) q in simp_all)
    then show ?thesis using True by (simp add: split_beta)
  next
    case False
    then have mem': "(tg, ty, h) \<in> set ls"
      using Cons.prems(1) by simp
    show ?thesis
    proof (cases "tg' = tg \<and> ty' = ty")
      case True
      have i: "I (page_of (fst (run_handler h' path p)))"
        using Cons.prems(4,5) True l by simp
      have "Q (fst (run_listeners ls tg ty path (page_of (fst (run_handler h' path p)))))"
        by (rule Cons.IH) (use mem' Cons.prems(2,3,4) i in simp_all)
      then show ?thesis using True l by (simp add: split_beta)
    next
      case no: False
      have "Q (fst (run_listeners ls tg ty path p))"
        by (rule Cons.IH) (use mem' Cons.prems(2,3,4,5) in simp_all)
      then show ?thesis using no l by auto
    qed
  qed
qed

lemma themeToggle_click_completes:
  "\<not> setItem_throws (localStorage p) \<Longrightarrow>
   themeToggle_click html p =
     Completed ((setAttribute p html ''data-theme''
                   (if getAttribute p html ''data-theme'' = Some ''dark''
                    then ''light'' else ''dark''))
                \<lparr>localStorage := (localStorage p)\<lparr>items := (items (localStorage p))
                   (''theme'' \<mapsto> (if getAttribute p html ''data-theme'' = Some ''dark''
                                    then ''light'' else ''dark''))\<rparr>\<rparr>)"
  by (simp add: themeToggle_click_def localStorage_setItem_def Let_def)

lemma themeToggle_click_throws:
  "setItem_throws (localStorage p) \<Longrightarrow>
   themeToggle_click html p =
     Threw StorageError (setAttribute p html ''data-theme''
                   (if getAttribute p html ''data-theme'' = Some ''dark''
                    then ''light'' else ''dark''))"
  by (simp add: themeToggle_click_def localStorage_setItem_def Let_def)

lemma themeToggle_click_synced:
  "\<not> setItem_throws (localStorage p) \<Longrightarrow>
   theme_synced html (page_of (themeToggle_click html p))"
  by (simp add: themeToggle_click_completes theme_synced_def getAttribute_def setAttribute_def)

text \<open>A listener other than the theme toggle's leaves the theme attribute and the storage
  alone.\<close>

lemma other_handlers_theme:
  assumes "\<And>x. h \<noteq> ThemeToggleClick x"
  shows "getAttribute (page_of (fst (run_handler h path p))) e ''data-theme'' =
           getAttribute p e ''data-theme''"
    and "localStorage (page_of (fst (run_handler h path p))) = localStorage p"
  using assms
  by (cases h; simp add: menuToggle_click_def document_click_def window_resize_def
      langToggle_click_def getAttribute_def setAttribute_def classList_toggle_def
      classList_remove_def set_style_overflow_def Let_def)+

lemma handler_keeps_synced:
  assumes "\<not> setItem_throws (localStorage q)" and "theme_synced html q"
    and "\<And>x. h = ThemeToggleClick x \<Longrightarrow> x = html"
  shows "theme_synced html (page_of (fst (run_handler h path q)))"
proof (cases "\<exists>x. h = ThemeToggleClick x")
  case True
  with assms(3) have "h = ThemeToggleClick html" by auto
  then show ?thesis using assms(1) by (simp add: themeToggle_click_synced)
next
  case False
  then show ?thesis
    using assms(2) by (simp add: theme_synced_def other_handlers_theme)
qed

lemma handler_keeps_writable:
  "setItem_throws (localStorage (page_of (fst (run_handler h path q)))) =
     setItem_throws (localStorage q)"
  using run_handler_frame [of q h path] by (simp add: same_frame_def)

lemma init_theme_listener:
  assumes "\<not> getItem_throws (localStorage p)" and "querySelector p ''.theme-toggle'' = Some tt"
  shows "(OnElement tt, ClickEv, ThemeToggleClick (documentElement p))
           \<in> set (listeners (page_of (DOMContentLoaded p)))"
  using assms by (simp add: init_listeners)

lemma init_theme_handler:
  assumes "(tg, ty, ThemeToggleClick x) \<in> set (listeners (page_of (DOMContentLoaded p)))"
    and "listeners p = []"
  shows "x = documentElement p"
  using assms by (cases rule: init_handler_cases) simp_all

lemma handler_keeps_theme_state:
  assumes w: "\<not> setItem_throws (localStorage q)"
    and j: "theme_synced html q \<or> (getAttribute q html ''data-theme'' = v \<and> localStorage q = s)"
    and h: "\<And>x. h = ThemeToggleClick x \<Longrightarrow> x = html"
  shows "theme_synced html (page_of (fst (run_handler h path q))) \<or>
         (getAttribute (page_of (fst (run_handler h path q))) html ''data-theme'' = v \<and>
          localStorage (page_of (fst (run_handler h path q))) = s)"
proof (cases "\<exists>x. h = ThemeToggleClick x")
  case True
  with h have "h = ThemeToggleClick html" by auto
  then show ?thesis using w by (simp add: themeToggle_click_synced)
next
  case False
  then show ?thesis
    using j by (auto simp: theme_synced_def other_handlers_theme)
qed

text \<open>
  C1 (amended). With storage that can be read and written: the initialization sets
  \<^verbatim>\<open>data-theme\<close> to the stored theme, or to \<^verbatim>\<open>"light"\<close> when none (or the empty string) is
  stored, and writes nothing to storage. After any events, either the attribute and the
  stored value are equal, or both are still as the initialization left them. Once equal
  they stay equal under every event, and they are equal after every click on the theme
  toggle.
\<close>

theorem theme_attribute_and_storage:
  assumes fresh: "listeners p0 = []"
    and readable: "\<not> getItem_throws (localStorage p0)"
    and writable: "\<not> setItem_throws (localStorage p0)"
    and html: "html = documentElement p0"
    and p: "p = run (page_of (DOMContentLoaded p0)) evs"
  shows
    "getAttribute (page_of (DOMContentLoaded p0)) html ''data-theme'' =
       Some (or_default (items (localStorage p0) ''theme'') ''light'') \<and>
     localStorage (page_of (DOMContentLoaded p0)) = localStorage p0 \<and>
     (theme_synced html p \<or>
        (getAttribute p html ''data-theme'' =
           Some (or_default (items (localStorage p0) ''theme'') ''light'') \<and>
         localStorage p = localStorage p0)) \<and>
     (theme_synced html p \<longrightarrow> theme_synced html (dispatch p ev)) \<and>
     (querySelector p0 ''.theme-toggle'' = Some tt \<longrightarrow>
        theme_synced html (dispatch p (Click tt anc)))"
proof -
  let ?i = "page_of (DOMContentLoaded p0)"
  let ?v = "Some (or_default (items (localStorage p0) ''theme'') ''light'')"
  let ?W = "\<lambda>q :: page. \<not> setItem_throws (localStorage q)"
  have l: "listeners p = listeners ?i"
    using p by simp
  have own: "x = html" if "(tg, ty, ThemeToggleClick x) \<in> set (listeners p)" for tg ty x
    using that init_theme_handler [OF _ fresh] l html by simp
  have 1: "getAttribute ?i html ''data-theme'' = ?v"
    using readable html by (simp add: getAttribute_def init_node setAttribute_def)
  have 2: "localStorage ?i = localStorage p0"
    by simp
  have 3: "?W p \<and> (theme_synced html p \<or>
        (getAttribute p html ''data-theme'' = ?v \<and> localStorage p = localStorage p0))"
    unfolding p
  proof (rule run_preserves)
    fix tg ty h path q
    assume m: "(tg, ty, h) \<in> set (listeners ?i)"
      and q: "?W q \<and> (theme_synced html q \<or>
        (getAttribute q html ''data-theme'' = ?v \<and> localStorage q = localStorage p0))"
    have "\<And>x. h = ThemeToggleClick x \<Longrightarrow> x = html"
      using m own l by auto
    then show "?W (page_of (fst (run_handler h path q))) \<and>
       (theme_synced html (page_of (fst (run_handler h path q))) \<or>
        (getAttribute (page_of (fst (run_handler h path q))) html ''data-theme'' = ?v \<and>
         localStorage (page_of (fst (run_handler h path q))) = localStorage p0))"
      using q handler_keeps_theme_state [of q html ?v "localStorage p0" h path]
      by (simp add: handler_keeps_writable)
  next
    fix q w
    assume "?W q \<and> (theme_synced html q \<or>
        (getAttribute q html ''data-theme'' = ?v \<and> localStorage q = localStorage p0))"
    then show "?W (q\<lparr>innerWidth := w\<rparr>) \<and> (theme_synced html (q\<lparr>innerWidth := w\<rparr>) \<or>
        (getAttribute (q\<lparr>innerWidth := w\<rparr>) html ''data-theme'' = ?v \<and>
         localStorage (q\<lparr>innerWidth := w\<rparr>) = localStorage p0))"
      by (simp add: theme_synced_def getAttribute_def)
  next
    show "?W ?i \<and> (theme_synced html ?i \<or>
        (getAttribute ?i html ''data-theme'' = ?v \<and> localStorage ?i = localStorage p0))"
      using 1 writable by simp
  qed
  then have wp: "?W p" by simp
  have keep: "?W (page_of (fst (run_handler h path q))) \<and>
              theme_synced html (page_of (fst (run_handler h path q)))"
    if "(tg, ty, h) \<in> set (listeners p)" and "?W q \<and> theme_synced html q"
    for tg ty h path q
  proof -
    have "\<And>x. h = ThemeToggleClick x \<Longrightarrow> x = html"
      using that(1) own by auto
    then have "theme_synced html (page_of (fst (run_handler h path q)))"
      using that(2) by (intro handler_keeps_synced) simp_all
    then show ?thesis
      using that(2) by (simp add: handler_keeps_writable)
  qed
  have 4: "theme_synced html p \<longrightarrow> theme_synced html (dispatch p ev)"
  proof
    assume s: "theme_synced html p"
    have "?W (dispatch p ev) \<and> theme_synced html (dispatch p ev)"
    proof (rule dispatch_preserves)
      fix tg ty h path q
      assume "(tg, ty, h) \<in> set (listeners p)" and "?W q \<and> theme_synced html q"
      then show "?W (page_of (fst (run_handler h path q))) \<and>
                 theme_synced html (page_of (fst (run_handler h path q)))"
        by (rule keep)
    next
      fix q w
      assume "?W q \<and> theme_synced html q"
      then show "?W (q\<lparr>innerWidth := w\<rparr>) \<and> theme_synced html (q\<lparr>innerWidth := w\<rparr>)"
        by (simp add: theme_synced_def getAttribute_def)
    next
      show "?W p \<and> theme_synced html p" using wp s by simp
    qed
    then show "theme_synced html (dispatch p ev)" by simp
  qed
  have 5: "querySelector p0 ''.theme-toggle'' = Some tt \<longrightarrow>
        theme_synced html (dispatch p (Click tt anc))"
  proof
    assume tt: "querySelector p0 ''.theme-toggle'' = Some tt"
    let ?path = "tt # anc"
    let ?r = "run_listeners (listeners p) (OnElement tt) ClickEv ?path p"
    have mem: "(OnElement tt, ClickEv, ThemeToggleClick html) \<in> set (listeners p)"
      using init_theme_listener [OF readable tt] l html by simp
    have first: "?W (fst ?r) \<and> theme_synced html (fst ?r)"
    proof (rule run_listeners_establishes [where I = ?W])
      show "(OnElement tt, ClickEv, ThemeToggleClick html) \<in> set (listeners p)"
        by (rule mem)
    next
      fix q
      assume "?W q"
      then show "?W (page_of (fst (run_handler (ThemeToggleClick html) ?path q))) \<and>
                 theme_synced html (page_of (fst (run_handler (ThemeToggleClick html) ?path q)))"
        using handler_keeps_writable [of "ThemeToggleClick html" ?path q]
        by (simp add: themeToggle_click_synced)
    next
      fix h' q
      assume "(OnElement tt, ClickEv, h') \<in> set (listeners p)"
        and "?W q \<and> theme_synced html q"
      then show "?W (page_of (fst (run_handler h' ?path q))) \<and>
                 theme_synced html (page_of (fst (run_handler h' ?path q)))"
        by (rule keep)
    next
      fix h' q
      assume "?W q"
      then show "?W (page_of (fst (run_handler h' ?path q)))"
        by (simp add: handler_keeps_writable)
    next
      show "?W p" by (rule wp)
    qed
    have rest: "?W (propagate anc ?path (fst ?r)) \<and>
                theme_synced html (propagate anc ?path (fst ?r))"
    proof (rule propagate_preserves)
      fix tg h q
      assume "(tg, ClickEv, h) \<in> set (listeners (fst ?r))" and q: "?W q \<and> theme_synced html q"
      then have "(tg, ClickEv, h) \<in> set (listeners p)" by simp
      then show "?W (page_of (fst (run_handler h ?path q))) \<and>
                 theme_synced html (page_of (fst (run_handler h ?path q)))"
        using q by (rule keep)
    next
      show "?W (fst ?r) \<and> theme_synced html (fst ?r)" by (rule first)
    qed
    show "theme_synced html (dispatch p (Click tt anc))"
      using first rest by (simp add: split_beta)
  qed
  from 1 2 3 4 5 show ?thesis by blast
qed

theorem theme_attribute_and_storage_witness:
  "listeners dark_page = [] \<and>
   \<not> getItem_throws (localStorage dark_page) \<and>
   \<not> setItem_throws (localStorage dark_page) \<and>
   getAttribute (page_of (DOMContentLoaded dark_page)) (documentElement dark_page)
     ''data-theme'' = Some (or_default (items (localStorage dark_page) ''theme'') ''light'') \<and>
   localStorage (page_of (DOMContentLoaded dark_page)) = localStorage dark_page \<and>
   theme_synced (documentElement dark_page)
     (run (page_of (DOMContentLoaded dark_page)) [Click 3 [2, 1, 0]]) \<and>
   theme_synced (documentElement dark_page)
     (dispatch (run (page_of (DOMContentLoaded dark_page)) [Click 3 [2, 1, 0]]) (Resize 1024)) \<and>
   querySelector dark_page ''.theme-toggle'' = Some 7 \<and>
   theme_synced (documentElement dark_page)
     (dispatch (run (page_of (DOMContentLoaded dark_page)) [Click 3 [2, 1, 0]])
        (Click 7 [2, 1, 0]))"
proof -
  have a: "listeners dark_page = []"
    by (simp add: dark_page_def sample_page_def)
  have b: "\<not> getItem_throws (localStorage dark_page)"
    by (simp add: dark_page_def)
  have c: "\<not> setItem_throws (localStorage dark_page)"
    by (simp add: dark_page_def)
  have d: "querySelector dark_page ''.theme-toggle'' = Some 7"
    by (simp add: dark_page_def model_defs sample_defs)
  have s: "theme_synced (documentElement dark_page)
     (run (page_of (DOMContentLoaded dark_page)) [Click 3 [2, 1, 0]])"
    by (simp add: theme_synced_def dark_page_def model_defs sample_defs)
  from theme_attribute_and_storage
         [where evs = "[Click 3 [2, 1, 0]]" and ev = "Resize 1024" and tt = 7
            and anc = "[2, 1, 0]", OF a b c refl refl]
       a b c d s
  show ?thesis by blast
qed

text \<open>
  Right after an initialization that found nothing stored, the attribute is \<^verbatim>\<open>"light"\<close>
  and storage still has no \<^verbatim>\<open>theme\<close> value.
\<close>

theorem theme_unsynced_after_init_counterexample:
  "items (localStorage sample_page) ''theme'' = None \<and>
   DOMContentLoaded sample_page = Completed (page_of (DOMContentLoaded sample_page)) \<and>
   getAttribute (page_of (DOMContentLoaded sample_page)) (documentElement sample_page)
     ''data-theme'' = Some ''light'' \<and>
   items (localStorage (page_of (DOMContentLoaded sample_page))) ''theme'' = None \<and>
   getAttribute (page_of (DOMContentLoaded sample_page)) (documentElement sample_page)
     ''data-theme'' \<noteq> items (localStorage (page_of (DOMContentLoaded sample_page))) ''theme''"
  by (simp add: model_defs sample_defs)

section \<open>The theme toggle applied twice\<close>

text \<open>
  C5 (amended). With writable storage and a root attribute that is \<^verbatim>\<open>"light"\<close> or
  \<^verbatim>\<open>"dark"\<close>, two runs of the theme toggle's listener both complete and give the attribute
  its first value back; if the stored value was equal to the attribute before, the whole
  page, storage included, is as before.
\<close>

theorem theme_toggle_twice:
  assumes writable: "\<not> setItem_throws (localStorage p)"
    and two: "getAttribute p html ''data-theme'' = Some ''light'' \<or>
              getAttribute p html ''data-theme'' = Some ''dark''"
  shows "\<exists>p1 p2. themeToggle_click html p = Completed p1 \<and>
           themeToggle_click html p1 = Completed p2 \<and>
           getAttribute p2 html ''data-theme'' = getAttribute p html ''data-theme'' \<and>
           (theme_synced html p \<longrightarrow> p2 = p)"
proof -
  let ?t = "if getAttribute p html ''data-theme'' = Some ''dark'' then ''light'' else ''dark''"
  let ?p1 = "(setAttribute p html ''data-theme'' ?t)
                \<lparr>localStorage := (localStorage p)\<lparr>items := (items (localStorage p))
                   (''theme'' \<mapsto> ?t)\<rparr>\<rparr>"
  have 1: "themeToggle_click html p = Completed ?p1"
    using writable by (rule themeToggle_click_completes)
  have w1: "\<not> setItem_throws (localStorage ?p1)"
    using writable by simp
  obtain v where v: "getAttribute p html ''data-theme'' = Some v" "v = ''light'' \<or> v = ''dark''"
    using two by auto
  have again: "(if getAttribute ?p1 html ''data-theme'' = Some ''dark'' then ''light'' else ''dark'')
               = v"
    using v by (auto simp: getAttribute_def setAttribute_def)
  let ?p2 = "(setAttribute ?p1 html ''data-theme'' v)
                \<lparr>localStorage := (localStorage ?p1)\<lparr>items := (items (localStorage ?p1))
                   (''theme'' \<mapsto> v)\<rparr>\<rparr>"
  have 2: "themeToggle_click html ?p1 = Completed ?p2"
    using themeToggle_click_completes [OF w1, of html] unfolding again .
  have 3: "getAttribute ?p2 html ''data-theme'' = getAttribute p html ''data-theme''"
    using v by (simp add: getAttribute_def setAttribute_def)
  have 4: "?p2 = p" if s: "theme_synced html p"
  proof -
    have n: "node ?p2 = node p"
      using v(1) by (auto simp: setAttribute_def getAttribute_def map_upd_triv)
    have "items (localStorage p) ''theme'' = Some v"
      using s v(1) by (simp add: theme_synced_def)
    then have "(items (localStorage p))(''theme'' \<mapsto> v) = items (localStorage p)"
      by (rule map_upd_triv)
    then have st: "localStorage ?p2 = localStorage p"
      by simp
    show ?thesis
      using n st by (simp add: setAttribute_def)
  qed
  from 1 2 3 4 show ?thesis by blast
qed

theorem theme_toggle_twice_witness:
  "\<not> setItem_throws (localStorage (run (page_of (DOMContentLoaded sample_page))
       [Click 7 [2, 1, 0]])) \<and>
   getAttribute (run (page_of (DOMContentLoaded sample_page)) [Click 7 [2, 1, 0]]) 0
     ''data-theme'' = Some ''dark'' \<and>
   theme_synced 0 (run (page_of (DOMContentLoaded sample_page)) [Click 7 [2, 1, 0]]) \<and>
   (\<exists>p1 p2.
      themeToggle_click 0 (run (page_of (DOMContentLoaded sample_page)) [Click 7 [2, 1, 0]])
        = Completed p1 \<and>
      themeToggle_click 0 p1 = Completed p2 \<and>
      getAttribute p2 0 ''data-theme'' =
        getAttribute (run (page_of (DOMContentLoaded sample_page)) [Click 7 [2, 1, 0]]) 0
          ''data-theme'' \<and>
      p2 = run (page_of (DOMContentLoaded sample_page)) [Click 7 [2, 1, 0]])"
proof -
  let ?p = "run (page_of (DOMContentLoaded sample_page)) [Click 7 [2, 1, 0]]"
  have a: "\<not> setItem_throws (localStorage ?p)"
    by (simp add: model_defs sample_defs)
  have b: "getAttribute ?p 0 ''data-theme'' = Some ''dark''"
    by (simp add: model_defs sample_defs)
  have c: "theme_synced 0 ?p"
    by (simp add: theme_synced_def model_defs sample_defs)
  from theme_toggle_twice [of ?p 0] a b c
  show ?thesis by blast
qed

text \<open>
  Right after an initialization that found nothing stored, two toggles leave \<^verbatim>\<open>"light"\<close>
  stored where nothing was.
\<close>

theorem theme_toggle_twice_counterexample:
  "items (localStorage (page_of (DOMContentLoaded sample_page))) ''theme'' = None \<and>
   items (localStorage (page_of (themeToggle_click 0 (page_of (themeToggle_click 0
      (page_of (DOMContentLoaded sample_page))))))) ''theme'' = Some ''light'' \<and>
   items (localStorage (run (page_of (DOMContentLoaded sample_page))
      [Click 7 [2, 1, 0], Click 7 [2, 1, 0]])) ''theme'' = Some ''light''"
  by (simp add: model_defs sample_defs)

section \<open>Storage that throws\<close>

text \<open>
  C2 (amended). If reading storage throws, the initialization ends at the read with the
  exception uncaught: the page is as the menu and dropdown parts left it, so neither
  \<^verbatim>\<open>data-theme\<close> nor storage is written and no theme listener is attached. If reading
  works, the initialization completes, sets \<^verbatim>\<open>data-theme\<close> to the stored theme or
  \<^verbatim>\<open>"light"\<close> and leaves storage as it is. If writing throws, the theme toggle's listener
  flips the root attribute and then throws, leaving storage as it is.
\<close>

theorem storage_unavailable:
  "(getItem_throws (localStorage p) \<longrightarrow>
      DOMContentLoaded p = Threw StorageError (dropdown_controller (menu_controller p)) \<and>
      node (page_of (DOMContentLoaded p)) = node p \<and>
      localStorage (page_of (DOMContentLoaded p)) = localStorage p) \<and>
   (\<not> getItem_throws (localStorage p) \<longrightarrow>
      (\<exists>p'. DOMContentLoaded p = Completed p' \<and>
         getAttribute p' (documentElement p) ''data-theme'' =
           Some (or_default (items (localStorage p) ''theme'') ''light'') \<and>
         localStorage p' = localStorage p)) \<and>
   (setItem_throws (localStorage q) \<longrightarrow>
      (\<exists>q'. themeToggle_click html q = Threw StorageError q' \<and>
         getAttribute q' html ''data-theme'' =
           Some (if getAttribute q html ''data-theme'' = Some ''dark''
                 then ''light'' else ''dark'') \<and>
         localStorage q' = localStorage q))"
proof -
  have 1: "getItem_throws (localStorage p) \<longrightarrow>
      DOMContentLoaded p = Threw StorageError (dropdown_controller (menu_controller p)) \<and>
      node (page_of (DOMContentLoaded p)) = node p \<and>
      localStorage (page_of (DOMContentLoaded p)) = localStorage p"
    by (simp add: DOMContentLoaded_def theme_controller_throws)
  have 2: "\<not> getItem_throws (localStorage p) \<longrightarrow>
      (\<exists>p'. DOMContentLoaded p = Completed p' \<and>
         getAttribute p' (documentElement p) ''data-theme'' =
           Some (or_default (items (localStorage p) ''theme'') ''light'') \<and>
         localStorage p' = localStorage p)"
    by (simp add: DOMContentLoaded_def theme_controller_completes getAttribute_def
        setAttribute_def)
  have 3: "setItem_throws (localStorage q) \<longrightarrow>
      (\<exists>q'. themeToggle_click html q = Threw StorageError q' \<and>
         getAttribute q' html ''data-theme'' =
           Some (if getAttribute q html ''data-theme'' = Some ''dark''
                 then ''light'' else ''dark'') \<and>
         localStorage q' = localStorage q)"
    by (simp add: themeToggle_click_throws getAttribute_def setAttribute_def)
  from 1 2 3 show ?thesis by blast
qed

theorem storage_unavailable_witness:
  "getItem_throws (localStorage blocked_page) \<and>
   DOMContentLoaded blocked_page =
     Threw StorageError (dropdown_controller (menu_controller blocked_page)) \<and>
   node (page_of (DOMContentLoaded blocked_page)) = node blocked_page \<and>
   localStorage (page_of (DOMContentLoaded blocked_page)) = localStorage blocked_page \<and>
   \<not> getItem_throws (localStorage readonly_page) \<and>
   (\<exists>p'. DOMContentLoaded readonly_page = Completed p' \<and>
      getAttribute p' (documentElement readonly_page) ''data-theme'' =
        Some (or_default (items (localStorage readonly_page) ''theme'') ''light'') \<and>
      localStorage p' = localStorage readonly_page) \<and>
   setItem_throws (localStorage (page_of (DOMContentLoaded readonly_page))) \<and>
   (\<exists>q'. themeToggle_click 0 (page_of (DOMContentLoaded readonly_page))
            = Threw StorageError q' \<and>
      getAttribute q' 0 ''data-theme'' =
        Some (if getAttribute (page_of (DOMContentLoaded readonly_page)) 0 ''data-theme''
                = Some ''dark'' then ''light'' else ''dark'') \<and>
      localStorage q' = localStorage (page_of (DOMContentLoaded readonly_page)))"
proof -
  have a: "getItem_throws (localStorage blocked_page)"
    by (simp add: blocked_page_def)
  have b: "\<not> getItem_throws (localStorage readonly_page)"
    by (simp add: readonly_page_def)
  have c: "setItem_throws (localStorage (page_of (DOMContentLoaded readonly_page)))"
    by (simp add: readonly_page_def)
  from storage_unavailable [of blocked_page]
       storage_unavailable [of readonly_page "page_of (DOMContentLoaded readonly_page)" 0]
       a b c
  show ?thesis by blast
qed

text \<open>
  With storage disabled the initialization throws, \<^verbatim>\<open>data-theme\<close> is not set, and a click
  on the theme toggle does not set it either.
\<close>

theorem storage_read_throws_counterexample:
  "getItem_throws (localStorage blocked_page) \<and>
   DOMContentLoaded blocked_page =
     Threw StorageError (page_of (DOMContentLoaded blocked_page)) \<and>
   getAttribute (page_of (DOMContentLoaded blocked_page)) (documentElement blocked_page)
     ''data-theme'' = None \<and>
   querySelector blocked_page ''.theme-toggle'' = Some 7 \<and>
   getAttribute (dispatch (page_of (DOMContentLoaded blocked_page)) (Click 7 [2, 1, 0]))
     (documentElement blocked_page) ''data-theme'' = None"
  by (simp add: blocked_page_def model_defs sample_defs)

end
